theory Spec2Isabelle
  imports Complex_Main
begin

section \<open>JavaScript values\<close>

text \<open>
  The tool arguments arrive as a parsed JSON object, so every field the handlers read is
  an untyped value. Numbers are the finite values JSON can denote (rationals); strings
  are lists of characters, the code units below 256. An absent property reads as
  \<open>undefined\<close>.
\<close>

datatype jsvalue =
    JUndefined
  | JNull
  | JBool bool
  | JNum rat
  | JStr string
  | JArr "jsvalue list"
  | JObj "(string \<times> jsvalue) list"

type_synonym js_object = "string \<rightharpoonup> jsvalue"

text \<open>Property access \<open>params.k\<close>.\<close>

definition get_prop :: "js_object \<Rightarrow> string \<Rightarrow> jsvalue" where
  "get_prop obj k = (case obj k of None \<Rightarrow> JUndefined | Some v \<Rightarrow> v)"

text \<open>Truthiness, as tested by \<open>!x\<close>, \<open>x && y\<close> and \<open>x || y\<close>.\<close>

fun truthy :: "jsvalue \<Rightarrow> bool" where
  "truthy JUndefined = False"
| "truthy JNull = False"
| "truthy (JBool b) = b"
| "truthy (JNum r) = (r \<noteq> 0)"
| "truthy (JStr s) = (s \<noteq> [])"
| "truthy (JArr xs) = True"
| "truthy (JObj kvs) = True"

text \<open>The operator \<open>a || b\<close> on values.\<close>

definition or_else :: "jsvalue \<Rightarrow> jsvalue \<Rightarrow> jsvalue" where
  "or_else a b = (if truthy a then a else b)"

fun typeof :: "jsvalue \<Rightarrow> string" where
  "typeof JUndefined = ''undefined''"
| "typeof JNull = ''object''"
| "typeof (JBool b) = ''boolean''"
| "typeof (JNum r) = ''number''"
| "typeof (JStr s) = ''string''"
| "typeof (JArr xs) = ''object''"
| "typeof (JObj kvs) = ''object''"

text \<open>\<open>list.includes(v)\<close> for a list of string constants: only an equal string is found.\<close>

definition js_includes :: "string list \<Rightarrow> jsvalue \<Rightarrow> bool" where
  "js_includes xs v = (v \<in> set (map JStr xs))"

text \<open>
  Numeric comparison. \<open>v < n\<close> and \<open>v > n\<close> against a number literal convert \<open>v\<close> with
  ToNumber and are false when the conversion gives NaN. ToNumber of a string, an array
  or an object is the language runtime's parsing and is not part of this repository: it
  is the parameter \<open>tn\<close> of everything that compares.
\<close>

datatype jsnum = NaN | NegInf | Fin rat | PosInf

fun to_number :: "(jsvalue \<Rightarrow> jsnum) \<Rightarrow> jsvalue \<Rightarrow> jsnum" where
  "to_number tn JUndefined = NaN"
| "to_number tn JNull = Fin 0"
| "to_number tn (JBool b) = Fin (if b then 1 else 0)"
| "to_number tn (JNum r) = Fin r"
| "to_number tn v = tn v"

definition js_lt :: "(jsvalue \<Rightarrow> jsnum) \<Rightarrow> jsvalue \<Rightarrow> rat \<Rightarrow> bool" where
  "js_lt tn v n = (case to_number tn v of Fin x \<Rightarrow> x < n | NegInf \<Rightarrow> True | _ \<Rightarrow> False)"

definition js_gt :: "(jsvalue \<Rightarrow> jsnum) \<Rightarrow> jsvalue \<Rightarrow> rat \<Rightarrow> bool" where
  "js_gt tn v n = (case to_number tn v of Fin x \<Rightarrow> x > n | PosInf \<Rightarrow> True | _ \<Rightarrow> False)"

text \<open>The property \<open>v.length\<close> of a truthy value.\<close>

fun js_length :: "jsvalue \<Rightarrow> jsvalue" where
  "js_length (JArr xs) = JNum (of_nat (length xs))"
| "js_length (JStr s) = JNum (of_nat (length s))"
| "js_length (JObj kvs) = (case map_of kvs ''length'' of None \<Rightarrow> JUndefined | Some v \<Rightarrow> v)"
| "js_length v = JUndefined"

text \<open>\<open>xs.join(', ')\<close>\<close>

fun join :: "string list \<Rightarrow> string" where
  "join [] = []"
| "join [x] = x"
| "join (x # y # ys) = x @ '', '' @ join (y # ys)"

section \<open>Validation errors\<close>

text \<open>
  Each \<open>throw new Error(...)\<close> of the validation sequence is one constructor; the two
  dimension checks share a kind and carry the field they reject.
\<close>

datatype dimension = Width | Height

datatype error =
    MissingPrompt
  | InvalidAspectRatio
  | InvalidSize
  | InvalidSequentialMode
  | InvalidMaxImages
  | TooManyInputImages
  | InvalidDimensions dimension

type_synonym payload = "(string \<times> jsvalue) list"

section \<open>SeedDream 3.0: validation and payload\<close>

definition VALID_ASPECT_RATIOS_v3 :: "string list" where
  "VALID_ASPECT_RATIOS_v3 =
     [''1:1'', ''3:4'', ''4:3'', ''16:9'', ''9:16'', ''2:3'', ''3:2'', ''21:9'', ''custom'']"

definition VALID_SIZES_v3 :: "string list" where
  "VALID_SIZES_v3 = [''small'', ''regular'', ''big'']"

definition error_message_v3 :: "error \<Rightarrow> string" where
  "error_message_v3 e =
     (case e of
        MissingPrompt \<Rightarrow> ''Prompt is required and must be a string''
      | InvalidAspectRatio \<Rightarrow>
          ''Invalid aspect ratio. Must be one of: '' @ join VALID_ASPECT_RATIOS_v3
      | InvalidSize \<Rightarrow> ''Invalid size. Must be one of: '' @ join VALID_SIZES_v3
      | _ \<Rightarrow> [])"

text \<open>The checks of the 3.0 handler, in the order they are written.\<close>

definition validate_v3 :: "js_object \<Rightarrow> error option" where
  "validate_v3 params =
     (if \<not> truthy (get_prop params ''prompt'') \<or> typeof (get_prop params ''prompt'') \<noteq> ''string''
      then Some MissingPrompt
      else if truthy (get_prop params ''aspect_ratio'')
              \<and> \<not> js_includes VALID_ASPECT_RATIOS_v3 (get_prop params ''aspect_ratio'')
      then Some InvalidAspectRatio
      else if truthy (get_prop params ''size'') \<and> \<not> js_includes VALID_SIZES_v3 (get_prop params ''size'')
      then Some InvalidSize
      else None)"

text \<open>The object \<open>input\<close> of the 3.0 handler, keys in insertion order.\<close>

definition build_input_v3 :: "js_object \<Rightarrow> payload" where
  "build_input_v3 params =
     [(''prompt'', get_prop params ''prompt''),
      (''aspect_ratio'', or_else (get_prop params ''aspect_ratio'') (JStr ''16:9'')),
      (''guidance_scale'', or_else (get_prop params ''guidance_scale'') (JNum 2.5))]
     @ (if get_prop params ''aspect_ratio'' \<noteq> JStr ''custom''
        then [(''size'', or_else (get_prop params ''size'') (JStr ''regular''))] else [])
     @ (if get_prop params ''aspect_ratio'' = JStr ''custom''
        then [(''width'', or_else (get_prop params ''width'') (JNum 2048)),
              (''height'', or_else (get_prop params ''height'') (JNum 2048))] else [])
     @ (if get_prop params ''seed'' \<noteq> JUndefined then [(''seed'', get_prop params ''seed'')] else [])"

definition normalize_v3 :: "js_object \<Rightarrow> error + payload" where
  "normalize_v3 params =
     (case validate_v3 params of Some e \<Rightarrow> Inl e | None \<Rightarrow> Inr (build_input_v3 params))"

section \<open>SeedDream 4.0: validation and payload\<close>

definition VALID_SIZES_v4 :: "string list" where
  "VALID_SIZES_v4 = [''1K'', ''2K'', ''4K'', ''custom'']"

definition VALID_ASPECT_RATIOS_v4 :: "string list" where
  "VALID_ASPECT_RATIOS_v4 =
     [''1:1'', ''3:4'', ''4:3'', ''16:9'', ''9:16'', ''2:3'', ''3:2'', ''21:9'',
      ''match_input_image'']"

definition VALID_SEQUENTIAL_MODES :: "string list" where
  "VALID_SEQUENTIAL_MODES = [''disabled'', ''auto'']"

definition error_message_v4 :: "error \<Rightarrow> string" where
  "error_message_v4 e =
     (case e of
        MissingPrompt \<Rightarrow> ''Prompt is required and must be a string''
      | InvalidSize \<Rightarrow> ''Invalid size. Must be one of: '' @ join VALID_SIZES_v4
      | InvalidAspectRatio \<Rightarrow>
          ''Invalid aspect ratio. Must be one of: '' @ join VALID_ASPECT_RATIOS_v4
      | InvalidSequentialMode \<Rightarrow>
          ''Invalid sequential mode. Must be one of: '' @ join VALID_SEQUENTIAL_MODES
      | InvalidMaxImages \<Rightarrow> ''max_images must be between 1 and 15''
      | TooManyInputImages \<Rightarrow> ''image_input can contain at most 10 images''
      | InvalidDimensions Width \<Rightarrow>
          ''width must be between 1024 and 4096 when using custom size''
      | InvalidDimensions Height \<Rightarrow>
          ''height must be between 1024 and 4096 when using custom size'')"

text \<open>The checks of the 4.0 handler, in the order they are written.\<close>

definition validate_v4 :: "(jsvalue \<Rightarrow> jsnum) \<Rightarrow> js_object \<Rightarrow> error option" where
  "validate_v4 tn params =
     (if \<not> truthy (get_prop params ''prompt'') \<or> typeof (get_prop params ''prompt'') \<noteq> ''string''
      then Some MissingPrompt
      else if truthy (get_prop params ''size'') \<and> \<not> js_includes VALID_SIZES_v4 (get_prop params ''size'')
      then Some InvalidSize
      else if truthy (get_prop params ''aspect_ratio'')
              \<and> \<not> js_includes VALID_ASPECT_RATIOS_v4 (get_prop params ''aspect_ratio'')
      then Some InvalidAspectRatio
      else if truthy (get_prop params ''sequential_image_generation'')
              \<and> \<not> js_includes VALID_SEQUENTIAL_MODES (get_prop params ''sequential_image_generation'')
      then Some InvalidSequentialMode
      else if truthy (get_prop params ''max_images'')
              \<and> (js_lt tn (get_prop params ''max_images'') 1 \<or> js_gt tn (get_prop params ''max_images'') 15)
      then Some InvalidMaxImages
      else if truthy (get_prop params ''image_input'')
              \<and> js_gt tn (js_length (get_prop params ''image_input'')) 10
      then Some TooManyInputImages
      else if get_prop params ''size'' = JStr ''custom''
              \<and> truthy (get_prop params ''width'')
              \<and> (js_lt tn (get_prop params ''width'') 1024 \<or> js_gt tn (get_prop params ''width'') 4096)
      then Some (InvalidDimensions Width)
      else if get_prop params ''size'' = JStr ''custom''
              \<and> truthy (get_prop params ''height'')
              \<and> (js_lt tn (get_prop params ''height'') 1024 \<or> js_gt tn (get_prop params ''height'') 4096)
      then Some (InvalidDimensions Height)
      else None)"

text \<open>The object \<open>input\<close> of the 4.0 handler, keys in insertion order.\<close>

definition build_input_v4 :: "js_object \<Rightarrow> payload" where
  "build_input_v4 params =
     [(''prompt'', get_prop params ''prompt''),
      (''size'', or_else (get_prop params ''size'') (JStr ''2K'')),
      (''max_images'', or_else (get_prop params ''max_images'') (JNum 1)),
      (''image_input'', or_else (get_prop params ''image_input'') (JArr [])),
      (''aspect_ratio'', or_else (get_prop params ''aspect_ratio'') (JStr ''match_input_image'')),
      (''sequential_image_generation'',
         or_else (get_prop params ''sequential_image_generation'') (JStr ''disabled''))]
     @ (if get_prop params ''size'' = JStr ''custom''
        then [(''width'', or_else (get_prop params ''width'') (JNum 2048)),
              (''height'', or_else (get_prop params ''height'') (JNum 2048))] else [])"

definition normalize_v4 :: "(jsvalue \<Rightarrow> jsnum) \<Rightarrow> js_object \<Rightarrow> error + payload" where
  "normalize_v4 tn params =
     (case validate_v4 tn params of Some e \<Rightarrow> Inl e | None \<Rightarrow> Inr (build_input_v4 params))"

section \<open>The environment of a call\<close>

text \<open>
  A thrown or rejected value is an \<open>Error\<close> with its message or some other value; the
  handlers read it as \<open>e instanceof Error ? e.message : 'Unknown ...'\<close>.
\<close>

datatype thrown = ErrorObj string | OtherValue

datatype 'o settled = Resolved 'o | Rejected thrown

text \<open>What a call does to the outside world, in the order it does it.\<close>

datatype event =
    UpstreamCall string payload
  | Download string string

text \<open>
  \<open>replicate\<close> is the client handle, \<open>None\<close> when no API token was configured; applied
  to the model identifier and the payload it gives what
  \<open>Promise.race([replicate.run(...), timeoutPromise])\<close> settles to, the rejection
  \<open>ErrorObj ''Request timeout''\<close> when the timer wins. \<open>downloadImage\<close> gives the local
  path or the rejection for a URL and a file name. \<open>timestamp\<close> is the clock reading
  with \<open>:\<close> and \<open>.\<close> replaced; \<open>random_seed\<close> is
  \<open>Math.floor(Math.random() * 1000000)\<close>; \<open>to_string\<close> is the runtime's rendering
  of a value inside a template string. Calls to \<open>log\<close> write to stderr only and are
  left out, as is the elapsed time shown in the success text.
\<close>

record 'o env =
  replicate :: "(string \<Rightarrow> payload \<Rightarrow> 'o settled) option"
  downloadImage :: "string \<Rightarrow> string \<Rightarrow> thrown + string"
  timestamp :: string
  random_seed :: nat
  to_string :: "jsvalue \<Rightarrow> string"

section \<open>File names\<close>

text \<open>
  \<open>toLowerCase\<close> on one character. Only \<open>A\<close> to \<open>Z\<close> are mapped: every other
  character that has a lower case is deleted by the filter that follows, as is its
  lower case.
\<close>

definition to_lower :: "char \<Rightarrow> char" where
  "to_lower c =
     (let n = (of_char c :: nat) in if 65 \<le> n \<and> n \<le> 90 then char_of (n + 32) else c)"

definition is_lower_or_digit :: "char \<Rightarrow> bool" where
  "is_lower_or_digit c =
     (let n = (of_char c :: nat) in (97 \<le> n \<and> n \<le> 122) \<or> (48 \<le> n \<and> n \<le> 57))"

text \<open>The class \<open>\s\<close> among the code units below 256.\<close>

definition is_space :: "char \<Rightarrow> bool" where
  "is_space c = ((of_char c :: nat) \<in> {9, 10, 11, 12, 13, 32, 160})"

text \<open>\<open>.replace(/\s+/g, '_')\<close>: each maximal run of white space becomes one underscore.\<close>

fun replace_spaces :: "bool \<Rightarrow> string \<Rightarrow> string" where
  "replace_spaces in_run [] = []"
| "replace_spaces in_run (c # cs) =
     (if is_space c
      then (if in_run then replace_spaces True cs else CHR ''_'' # replace_spaces True cs)
      else c # replace_spaces False cs)"

definition safePrompt :: "string \<Rightarrow> string" where
  "safePrompt prompt =
     take 50 (replace_spaces False
       (filter (\<lambda>c. is_lower_or_digit c \<or> is_space c) (map to_lower prompt)))"

fun show_nat :: "nat \<Rightarrow> string" where
  "show_nat n =
     (if n < 10 then [char_of (48 + n)] else show_nat (n div 10) @ [char_of (48 + n mod 10)])"

definition generateImageFilename_v4 :: "string \<Rightarrow> nat \<Rightarrow> string \<Rightarrow> string" where
  "generateImageFilename_v4 prompt i ts =
     ''seedream4_'' @ safePrompt prompt @ ''_'' @ show_nat i @ ''_'' @ ts @ ''.jpg''"

definition generateImageFilename_v3 :: "string \<Rightarrow> nat \<Rightarrow> string \<Rightarrow> string \<Rightarrow> string" where
  "generateImageFilename_v3 prompt i seed ts =
     ''seedream_'' @ safePrompt prompt @ ''_'' @ seed @ ''_'' @ show_nat i @ ''_'' @ ts @ ''.png''"

section \<open>Responses\<close>

definition startsWith :: "string \<Rightarrow> string \<Rightarrow> bool" where
  "startsWith s p = (take (length p) s = p)"

text \<open>\<open>s.includes(sub)\<close> on strings.\<close>

fun includes_str :: "string \<Rightarrow> string \<Rightarrow> bool" where
  "includes_str [] sub = (sub = [])"
| "includes_str (c # cs) sub = (startsWith (c # cs) sub \<or> includes_str cs sub)"

text \<open>
  A failure after validation: the upstream result was empty, was not a reference, or
  something was thrown inside the inner \<open>try\<close>.
\<close>

datatype api_error = EmptyOutput | MalformedOutput string | Raised thrown

datatype tip = TimeoutTip | AuthTip | RateLimitTip | InputValidationTip

record image =
  img_url :: string
  img_localPath :: string
  img_index :: nat

datatype detail_line =
    Saved nat string string
  | DownloadFailed nat string

record result_v4 =
  input_v4 :: payload
  generated :: nat
  imageDetails :: "detail_line list"
  successfulDownloads :: nat

datatype download_v3 = LocalPath string | DownloadFailedWith string

record result_v3 =
  input_v3 :: payload
  original_url :: string
  download :: download_v3

text \<open>
  The four shapes a handler returns: the fixed configuration error, the error block
  built by the outer \<open>catch\<close> from a validation error or from the error rethrown by the
  inner \<open>catch\<close> (with its tip), and the success text with the data it shows.
\<close>

datatype response =
    ConfigurationError
  | ValidationFailed error
  | UpstreamFailed api_error "tip option"
  | Generated_v4 result_v4
  | Generated_v3 result_v3

fun isError :: "response \<Rightarrow> bool" where
  "isError ConfigurationError = True"
| "isError (ValidationFailed e) = True"
| "isError (UpstreamFailed a t) = True"
| "isError (Generated_v4 r) = False"
| "isError (Generated_v3 r) = False"

definition thrown_message :: "thrown \<Rightarrow> string" where
  "thrown_message t = (case t of ErrorObj m \<Rightarrow> m | OtherValue \<Rightarrow> ''Unknown API error'')"

text \<open>\<open>request.params.arguments || {}\<close>: a call without arguments reads as the empty object.\<close>

definition params_of :: "js_object option \<Rightarrow> js_object" where
  "params_of arguments = (case arguments of None \<Rightarrow> Map.empty | Some a \<Rightarrow> a)"

text \<open>The payloads handed to the upstream model in a trace of events.\<close>

fun upstream_payloads :: "event list \<Rightarrow> payload list" where
  "upstream_payloads [] = []"
| "upstream_payloads (UpstreamCall m input # evs) = input # upstream_payloads evs"
| "upstream_payloads (Download u f # evs) = upstream_payloads evs"

fun downloads :: "event list \<Rightarrow> string list" where
  "downloads [] = []"
| "downloads (UpstreamCall m input # evs) = downloads evs"
| "downloads (Download u f # evs) = u # downloads evs"

text \<open>A conversion that never yields a number, for evaluating concrete calls.\<close>

definition nan_runtime :: "jsvalue \<Rightarrow> jsnum" where
  "nan_runtime v = NaN"

section \<open>SeedDream 4.0: the handler\<close>

text \<open>
  The upstream result of the 4.0 model: anything that is not an array, or an array of
  file objects, each answering \<open>.url()\<close> with a value or by throwing.
\<close>

datatype file_output = UrlReturns jsvalue | UrlThrows thrown

datatype output_v4 = NotArray | Array "file_output list"

definition api_error_message_v4 :: "api_error \<Rightarrow> string" where
  "api_error_message_v4 a =
     (case a of
        EmptyOutput \<Rightarrow> ''No images were generated - empty response from Replicate''
      | MalformedOutput t \<Rightarrow> []
      | Raised t \<Rightarrow> thrown_message t)"

definition helpfulMessage_v4 :: "string \<Rightarrow> tip option" where
  "helpfulMessage_v4 errorMessage =
     (if includes_str errorMessage ''timeout'' then Some TimeoutTip
      else if includes_str errorMessage ''authentication''
              \<or> includes_str errorMessage ''unauthorized'' then Some AuthTip
      else if includes_str errorMessage ''rate limit'' then Some RateLimitTip
      else if includes_str errorMessage ''input validation'' then Some InputValidationTip
      else None)"

text \<open>The inner \<open>catch\<close>: the error is rethrown with its tip and becomes the error block.\<close>

definition api_failure_v4 :: "api_error \<Rightarrow> response" where
  "api_failure_v4 a = UpstreamFailed a (helpfulMessage_v4 (api_error_message_v4 a))"

text \<open>
  The download loop from index \<open>i\<close> on. A reference that is not a string starting with
  \<open>http\<close> is skipped; a rejected download is recorded with an empty local path; a
  throwing \<open>.url()\<close> is outside the loop's own \<open>try\<close> and ends the loop.
\<close>

fun download_images ::
  "'o env \<Rightarrow> string \<Rightarrow> nat \<Rightarrow> file_output list \<Rightarrow> (thrown + image list) \<times> event list" where
  "download_images env prompt i [] = (Inr [], [])"
| "download_images env prompt i (UrlThrows t # rest) = (Inl t, [])"
| "download_images env prompt i (UrlReturns imageUrl # rest) =
     (case imageUrl of
        JStr u \<Rightarrow>
          if u = [] \<or> \<not> startsWith u ''http'' then download_images env prompt (i + 1) rest
          else
            (let filename = generateImageFilename_v4 prompt i (timestamp env);
                 img = (case downloadImage env u filename of
                          Inr localPath \<Rightarrow> \<lparr>img_url = u, img_localPath = localPath, img_index = i\<rparr>
                        | Inl downloadError \<Rightarrow> \<lparr>img_url = u, img_localPath = [], img_index = i\<rparr>);
                 (r, evs) = download_images env prompt (i + 1) rest
             in (case r of Inl t \<Rightarrow> (Inl t, Download u filename # evs)
                 | Inr imgs \<Rightarrow> (Inr (img # imgs), Download u filename # evs)))
      | _ \<Rightarrow> download_images env prompt (i + 1) rest)"

definition detail_of :: "image \<Rightarrow> detail_line" where
  "detail_of img =
     (if img_localPath img \<noteq> [] then Saved (img_index img + 1) (img_localPath img) (img_url img)
      else DownloadFailed (img_index img + 1) (img_url img))"

definition prompt_text :: "js_object \<Rightarrow> string" where
  "prompt_text params = (case get_prop params ''prompt'' of JStr p \<Rightarrow> p | _ \<Rightarrow> [])"

definition generate_image_v4 ::
  "(jsvalue \<Rightarrow> jsnum) \<Rightarrow> output_v4 env \<Rightarrow> js_object option \<Rightarrow> response \<times> event list" where
  "generate_image_v4 tn env arguments =
     (case replicate env of
        None \<Rightarrow> (ConfigurationError, [])
      | Some run \<Rightarrow>
          (let params = params_of arguments in
           case normalize_v4 tn params of
             Inl e \<Rightarrow> (ValidationFailed e, [])
           | Inr input \<Rightarrow>
               (let call = UpstreamCall ''bytedance/seedream-4'' input in
                case run ''bytedance/seedream-4'' input of
                  Rejected t \<Rightarrow> (api_failure_v4 (Raised t), [call])
                | Resolved NotArray \<Rightarrow> (api_failure_v4 EmptyOutput, [call])
                | Resolved (Array output) \<Rightarrow>
                    if output = [] then (api_failure_v4 EmptyOutput, [call])
                    else
                      (case download_images env (prompt_text params) 0 output of
                         (Inl t, evs) \<Rightarrow> (api_failure_v4 (Raised t), call # evs)
                       | (Inr downloadedImages, evs) \<Rightarrow>
                           (Generated_v4
                              \<lparr>input_v4 = input,
                               generated = length output,
                               imageDetails = map detail_of downloadedImages,
                               successfulDownloads =
                                 length (filter (\<lambda>img. img_localPath img \<noteq> []) downloadedImages)\<rparr>,
                            call # evs)))))"

text \<open>The \<open>switch\<close> on the tool name: any other name throws.\<close>

definition call_tool_v4 ::
  "(jsvalue \<Rightarrow> jsnum) \<Rightarrow> output_v4 env \<Rightarrow> string \<Rightarrow> js_object option
     \<Rightarrow> thrown + (response \<times> event list)" where
  "call_tool_v4 tn env name arguments =
     (if name = ''generate_image'' then Inr (generate_image_v4 tn env arguments)
      else Inl (ErrorObj (''Unknown tool: '' @ name)))"

section \<open>SeedDream 3.0: the handler\<close>

definition api_error_message_v3 :: "api_error \<Rightarrow> string" where
  "api_error_message_v3 a =
     (case a of
        EmptyOutput \<Rightarrow> ''No image was generated - empty response from Replicate''
      | MalformedOutput t \<Rightarrow> ''Invalid response format from Replicate: '' @ t
      | Raised t \<Rightarrow> thrown_message t)"

definition helpfulMessage_v3 :: "string \<Rightarrow> tip option" where
  "helpfulMessage_v3 errorMessage =
     (if includes_str errorMessage ''timeout'' then Some TimeoutTip
      else if includes_str errorMessage ''authentication''
              \<or> includes_str errorMessage ''unauthorized'' then Some AuthTip
      else if includes_str errorMessage ''rate limit'' then Some RateLimitTip
      else None)"

definition api_failure_v3 :: "api_error \<Rightarrow> response" where
  "api_failure_v3 a = UpstreamFailed a (helpfulMessage_v3 (api_error_message_v3 a))"

definition input_prop :: "payload \<Rightarrow> string \<Rightarrow> jsvalue" where
  "input_prop input k = (case map_of input k of None \<Rightarrow> JUndefined | Some v \<Rightarrow> v)"

definition generate_image_v3 ::
  "jsvalue env \<Rightarrow> js_object option \<Rightarrow> response \<times> event list" where
  "generate_image_v3 env arguments =
     (case replicate env of
        None \<Rightarrow> (ConfigurationError, [])
      | Some run \<Rightarrow>
          (let params = params_of arguments in
           case normalize_v3 params of
             Inl e \<Rightarrow> (ValidationFailed e, [])
           | Inr input \<Rightarrow>
               (let call = UpstreamCall ''bytedance/seedream-3'' input in
                case run ''bytedance/seedream-3'' input of
                  Rejected t \<Rightarrow> (api_failure_v3 (Raised t), [call])
                | Resolved output \<Rightarrow>
                    if \<not> truthy output then (api_failure_v3 EmptyOutput, [call])
                    else
                      (case output of
                         JStr u \<Rightarrow>
                           if \<not> startsWith u ''http''
                           then (api_failure_v3 (MalformedOutput (typeof output)), [call])
                           else
                             (let seed = or_else (input_prop input ''seed'')
                                           (JNum (of_nat (random_seed env)));
                                  filename = generateImageFilename_v3 (prompt_text params) 1
                                               (to_string env seed) (timestamp env)
                              in (Generated_v3
                                    \<lparr>input_v3 = input,
                                     original_url = u,
                                     download =
                                       (case downloadImage env u filename of
                                          Inr localPath \<Rightarrow> LocalPath localPath
                                        | Inl downloadError \<Rightarrow>
                                            DownloadFailedWith
                                              (case downloadError of ErrorObj m \<Rightarrow> m
                                               | OtherValue \<Rightarrow> ''Unknown error''))\<rparr>,
                                  [call, Download u filename]))
                       | _ \<Rightarrow> (api_failure_v3 (MalformedOutput (typeof output)), [call])))))"

definition call_tool_v3 ::
  "jsvalue env \<Rightarrow> string \<Rightarrow> js_object option \<Rightarrow> thrown + (response \<times> event list)" where
  "call_tool_v3 env name arguments =
     (if name = ''generate_image'' then Inr (generate_image_v3 env arguments)
      else Inl (ErrorObj (''Unknown tool: '' @ name)))"

section \<open>Example environments and calls\<close>

text \<open>Concrete environments on which the theorems below are exercised.\<close>

definition env_without_token_v3 :: "jsvalue env" where
  "env_without_token_v3 =
     \<lparr>replicate = None, downloadImage = (\<lambda>u f. Inl OtherValue), timestamp = ''T'',
      random_seed = 0, to_string = (\<lambda>v. ''0'')\<rparr>"

definition env_without_token_v4 :: "output_v4 env" where
  "env_without_token_v4 =
     \<lparr>replicate = None, downloadImage = (\<lambda>u f. Inl OtherValue), timestamp = ''T'',
      random_seed = 0, to_string = (\<lambda>v. ''0'')\<rparr>"

definition env_one_image_v3 :: "jsvalue env" where
  "env_one_image_v3 =
     \<lparr>replicate = Some (\<lambda>m input. Resolved (JStr ''https://replicate.delivery/out.png'')),
      downloadImage = (\<lambda>u f. Inr (''/srv/images/'' @ f)), timestamp = ''T'',
      random_seed = 42, to_string = (\<lambda>v. ''42'')\<rparr>"

definition env_timeout_v3 :: "jsvalue env" where
  "env_timeout_v3 =
     \<lparr>replicate = Some (\<lambda>m input. Rejected (ErrorObj ''Request timeout'')),
      downloadImage = (\<lambda>u f. Inl OtherValue), timestamp = ''U'',
      random_seed = 7, to_string = (\<lambda>v. ''7'')\<rparr>"

definition env_empty_output_v4 :: "output_v4 env" where
  "env_empty_output_v4 =
     \<lparr>replicate = Some (\<lambda>m input. Resolved (Array [])),
      downloadImage = (\<lambda>u f. Inr (''/srv/images/'' @ f)), timestamp = ''T'',
      random_seed = 0, to_string = (\<lambda>v. ''0'')\<rparr>"

definition three_urls :: "string list" where
  "three_urls = [''https://h/1'', ''https://h/2'', ''https://h/3'']"

text \<open>Three images come back; the download of the second one is refused.\<close>

definition env_three_images_v4 :: "output_v4 env" where
  "env_three_images_v4 =
     \<lparr>replicate = Some (\<lambda>m input. Resolved (Array (map (\<lambda>u. UrlReturns (JStr u)) three_urls))),
      downloadImage =
        (\<lambda>u f. if u = ''https://h/2'' then Inl (ErrorObj ''Failed to download image: 404'')
                else Inr ''/srv/images/saved.jpg''),
      timestamp = ''T'', random_seed = 0, to_string = (\<lambda>v. ''0'')\<rparr>"

text \<open>The 4.0 payload of a request that gives only the prompt \<open>p\<close>.\<close>

definition default_input_v4 :: "string \<Rightarrow> payload" where
  "default_input_v4 p =
     [(''prompt'', JStr p), (''size'', JStr ''2K''), (''max_images'', JNum 1),
      (''image_input'', JArr []), (''aspect_ratio'', JStr ''match_input_image''),
      (''sequential_image_generation'', JStr ''disabled'')]"

section \<open>The single checks and their order\<close>

text \<open>
  The guard of each \<open>throw\<close> of the validation sequence, taken alone: whether the check
  that raises the given error rejects the arguments, whatever the other checks say.
\<close>

fun rejects_v3 :: "js_object \<Rightarrow> error \<Rightarrow> bool" where
  "rejects_v3 params MissingPrompt =
     (\<not> truthy (get_prop params ''prompt'') \<or> typeof (get_prop params ''prompt'') \<noteq> ''string'')"
| "rejects_v3 params InvalidAspectRatio =
     (truthy (get_prop params ''aspect_ratio'')
      \<and> \<not> js_includes VALID_ASPECT_RATIOS_v3 (get_prop params ''aspect_ratio''))"
| "rejects_v3 params InvalidSize =
     (truthy (get_prop params ''size'') \<and> \<not> js_includes VALID_SIZES_v3 (get_prop params ''size''))"
| "rejects_v3 params e = False"

fun rejects_v4 :: "(jsvalue \<Rightarrow> jsnum) \<Rightarrow> js_object \<Rightarrow> error \<Rightarrow> bool" where
  "rejects_v4 tn params MissingPrompt =
     (\<not> truthy (get_prop params ''prompt'') \<or> typeof (get_prop params ''prompt'') \<noteq> ''string'')"
| "rejects_v4 tn params InvalidSize =
     (truthy (get_prop params ''size'') \<and> \<not> js_includes VALID_SIZES_v4 (get_prop params ''size''))"
| "rejects_v4 tn params InvalidAspectRatio =
     (truthy (get_prop params ''aspect_ratio'')
      \<and> \<not> js_includes VALID_ASPECT_RATIOS_v4 (get_prop params ''aspect_ratio''))"
| "rejects_v4 tn params InvalidSequentialMode =
     (truthy (get_prop params ''sequential_image_generation'')
      \<and> \<not> js_includes VALID_SEQUENTIAL_MODES (get_prop params ''sequential_image_generation''))"
| "rejects_v4 tn params InvalidMaxImages =
     (truthy (get_prop params ''max_images'')
      \<and> (js_lt tn (get_prop params ''max_images'') 1 \<or> js_gt tn (get_prop params ''max_images'') 15))"
| "rejects_v4 tn params TooManyInputImages =
     (truthy (get_prop params ''image_input'')
      \<and> js_gt tn (js_length (get_prop params ''image_input'')) 10)"
| "rejects_v4 tn params (InvalidDimensions Width) =
     (get_prop params ''size'' = JStr ''custom''
      \<and> truthy (get_prop params ''width'')
      \<and> (js_lt tn (get_prop params ''width'') 1024 \<or> js_gt tn (get_prop params ''width'') 4096))"
| "rejects_v4 tn params (InvalidDimensions Height) =
     (get_prop params ''size'' = JStr ''custom''
      \<and> truthy (get_prop params ''height'')
      \<and> (js_lt tn (get_prop params ''height'') 1024 \<or> js_gt tn (get_prop params ''height'') 4096))"

text \<open>The order in which each handler is claimed to run its checks.\<close>

definition check_order_v3 :: "error list" where
  "check_order_v3 = [MissingPrompt, InvalidAspectRatio, InvalidSize]"

definition check_order_v4 :: "error list" where
  "check_order_v4 =
     [MissingPrompt, InvalidSize, InvalidAspectRatio, InvalidSequentialMode, InvalidMaxImages,
      TooManyInputImages, InvalidDimensions Width, InvalidDimensions Height]"

section \<open>What the download loop visits\<close>

text \<open>The first \<open>.url()\<close> of a response that throws, if any.\<close>

fun first_throw :: "file_output list \<Rightarrow> thrown option" where
  "first_throw [] = None"
| "first_throw (UrlThrows t # rest) = Some t"
| "first_throw (UrlReturns v # rest) = first_throw rest"

text \<open>
  The references of a response that the loop hands to \<open>downloadImage\<close>, each with its
  position counted from \<open>i\<close>: the strings starting with \<open>http\<close> that come before
  the first throwing \<open>.url()\<close>.
\<close>

fun references :: "nat \<Rightarrow> file_output list \<Rightarrow> (nat \<times> string) list" where
  "references i [] = []"
| "references i (UrlThrows t # rest) = []"
| "references i (UrlReturns (JStr u) # rest) =
     (if u \<noteq> [] \<and> startsWith u ''http'' then (i, u) # references (i + 1) rest
      else references (i + 1) rest)"
| "references i (UrlReturns v # rest) = references (i + 1) rest"

text \<open>
  Four references come back: one whose download is refused, one that is not an
  \<open>http\<close> address, one that is an object and not a string, and one that downloads.
\<close>

definition mixed_output :: "file_output list" where
  "mixed_output =
     [UrlReturns (JStr ''https://h/1''), UrlReturns (JStr ''ftp://h/2''),
      UrlReturns (JObj [(''href'', JStr ''https://h/3'')]), UrlReturns (JStr ''https://h/4'')]"

definition env_mixed_output_v4 :: "output_v4 env" where
  "env_mixed_output_v4 =
     \<lparr>replicate = Some (\<lambda>m input. Resolved (Array mixed_output)),
      downloadImage =
        (\<lambda>u f. if u = ''https://h/1'' then Inl (ErrorObj ''Failed to download image: 500'')
                else Inr ''/srv/images/saved.jpg''),
      timestamp = ''T'', random_seed = 0, to_string = (\<lambda>v. ''0'')\<rparr>"

section \<open>Basic facts\<close>

lemmas v3_defs = normalize_v3_def validate_v3_def build_input_v3_def get_prop_def or_else_def
  js_includes_def VALID_ASPECT_RATIOS_v3_def VALID_SIZES_v3_def

lemmas v4_defs = normalize_v4_def validate_v4_def build_input_v4_def get_prop_def or_else_def
  js_includes_def VALID_ASPECT_RATIOS_v4_def VALID_SIZES_v4_def VALID_SEQUENTIAL_MODES_def
  js_lt_def js_gt_def

lemmas env_defs = env_without_token_v3_def env_without_token_v4_def env_one_image_v3_def
  env_timeout_v3_def env_empty_output_v4_def env_three_images_v4_def three_urls_def

text \<open>A call whose arguments do not validate ends before the upstream model is reached.\<close>

lemma invalid_call_v3:
  assumes "normalize_v3 (params_of arguments) = Inl e"
  shows "generate_image_v3 env arguments =
           (if replicate env = None then ConfigurationError else ValidationFailed e, [])"
  using assms by (simp add: generate_image_v3_def split: option.split)

lemma invalid_call_v4:
  assumes "normalize_v4 tn (params_of arguments) = Inl e"
  shows "generate_image_v4 tn env arguments =
           (if replicate env = None then ConfigurationError else ValidationFailed e, [])"
  using assms by (simp add: generate_image_v4_def split: option.split)

lemma missing_prompt_v3:
  assumes "typeof (get_prop params ''prompt'') \<noteq> ''string'' \<or> get_prop params ''prompt'' = JStr []"
  shows "normalize_v3 params = Inl MissingPrompt"
proof -
  have "\<not> truthy (get_prop params ''prompt'') \<or> typeof (get_prop params ''prompt'') \<noteq> ''string''"
    using assms by auto
  then show ?thesis by (simp add: normalize_v3_def validate_v3_def)
qed

lemma missing_prompt_v4:
  assumes "typeof (get_prop params ''prompt'') \<noteq> ''string'' \<or> get_prop params ''prompt'' = JStr []"
  shows "normalize_v4 tn params = Inl MissingPrompt"
proof -
  have "\<not> truthy (get_prop params ''prompt'') \<or> typeof (get_prop params ''prompt'') \<noteq> ''string''"
    using assms by auto
  then show ?thesis by (simp add: normalize_v4_def validate_v4_def)
qed

text \<open>
  When everything but the dimensions validates and the size is \<open>custom\<close>, the outcome of
  the 4.0 checks is decided by the two dimension checks, width first.
\<close>

lemma validate_v4_dimensions:
  assumes rest: "validate_v4 tn (params(''width'' := None, ''height'' := None)) = None"
      and custom: "get_prop params ''size'' = JStr ''custom''"
  shows "validate_v4 tn params =
           (if truthy (get_prop params ''width'')
               \<and> (js_lt tn (get_prop params ''width'') 1024 \<or> js_gt tn (get_prop params ''width'') 4096)
            then Some (InvalidDimensions Width)
            else if truthy (get_prop params ''height'')
               \<and> (js_lt tn (get_prop params ''height'') 1024 \<or> js_gt tn (get_prop params ''height'') 4096)
            then Some (InvalidDimensions Height)
            else None)"
proof -
  let ?q = "params(''width'' := None, ''height'' := None)"
  have same: "get_prop ?q ''prompt'' = get_prop params ''prompt''"
    "get_prop ?q ''size'' = get_prop params ''size''"
    "get_prop ?q ''aspect_ratio'' = get_prop params ''aspect_ratio''"
    "get_prop ?q ''sequential_image_generation'' = get_prop params ''sequential_image_generation''"
    "get_prop ?q ''max_images'' = get_prop params ''max_images''"
    "get_prop ?q ''image_input'' = get_prop params ''image_input''"
    by (simp_all add: get_prop_def)
  have none: "get_prop ?q ''width'' = JUndefined" "get_prop ?q ''height'' = JUndefined"
    by (simp_all add: get_prop_def)
  have p1: "(\<not> truthy (get_prop params ''prompt'') \<or> typeof (get_prop params ''prompt'') \<noteq> ''string'') = False"
   and p2: "(truthy (get_prop params ''size'') \<and> \<not> js_includes VALID_SIZES_v4 (get_prop params ''size'')) = False"
   and p3: "(truthy (get_prop params ''aspect_ratio'')
              \<and> \<not> js_includes VALID_ASPECT_RATIOS_v4 (get_prop params ''aspect_ratio'')) = False"
   and p4: "(truthy (get_prop params ''sequential_image_generation'')
              \<and> \<not> js_includes VALID_SEQUENTIAL_MODES (get_prop params ''sequential_image_generation'')) = False"
   and p5: "(truthy (get_prop params ''max_images'')
              \<and> (js_lt tn (get_prop params ''max_images'') 1 \<or> js_gt tn (get_prop params ''max_images'') 15)) = False"
   and p6: "(truthy (get_prop params ''image_input'')
              \<and> js_gt tn (js_length (get_prop params ''image_input'')) 10) = False"
    using rest unfolding validate_v4_def same none
    by (simp_all split: if_splits)
  show ?thesis
    unfolding validate_v4_def p1 p2 p3 p4 p5 p6 by (simp add: custom)
qed

lemma startsWith_nonempty: "startsWith u ''http'' \<Longrightarrow> u \<noteq> []"
  by (auto simp: startsWith_def)

text \<open>
  The loop on any response: it ends with the first throwing \<open>.url()\<close> if there is one,
  and up to there downloads every usable reference in order, whatever each download
  does.
\<close>

lemma download_images_all:
  "download_images env prompt i outs =
     (case first_throw outs of
        Some t \<Rightarrow> Inl t
      | None \<Rightarrow>
          Inr (map (\<lambda>(j, u).
                 case downloadImage env u (generateImageFilename_v4 prompt j (timestamp env)) of
                   Inr localPath \<Rightarrow> \<lparr>img_url = u, img_localPath = localPath, img_index = j\<rparr>
                 | Inl downloadError \<Rightarrow> \<lparr>img_url = u, img_localPath = [], img_index = j\<rparr>)
               (references i outs)),
      map (\<lambda>(j, u). Download u (generateImageFilename_v4 prompt j (timestamp env)))
        (references i outs))"
proof (induction outs arbitrary: i)
  case Nil
  then show ?case by simp
next
  case (Cons out outs)
  show ?case
  proof (cases out)
    case (UrlThrows t)
    then show ?thesis by simp
  next
    case (UrlReturns v)
    then show ?thesis
      by (cases v) (simp_all add: Cons.IH Let_def split: option.split)
  qed
qed

text \<open>When every reference is a string starting with \<open>http\<close>, the loop visits them all.\<close>

lemma references_all_http:
  assumes "\<forall>u \<in> set urls. startsWith u ''http''"
  shows "first_throw (map (\<lambda>u. UrlReturns (JStr u)) urls) = None"
    and "references i (map (\<lambda>u. UrlReturns (JStr u)) urls) = enumerate i urls"
  using assms
proof (induction urls arbitrary: i)
  case Nil
  {
    case 1
    show ?case by simp
  next
    case 2
    show ?case by simp
  }
next
  case (Cons u urls)
  {
    case 1
    then show ?case using Cons.IH(1) by simp
  next
    case 2
    then have u: "startsWith u ''http''" and rest: "\<forall>u \<in> set urls. startsWith u ''http''"
      by simp_all
    from u have ne: "u \<noteq> []" by (rule startsWith_nonempty)
    show ?case by (simp add: u ne Cons.IH(2) [OF rest])
  }
qed

text \<open>The download loop never calls the upstream model.\<close>

lemma download_images_no_upstream:
  "upstream_payloads (snd (download_images env prompt i outs)) = []"
proof (induction outs arbitrary: i)
  case Nil
  then show ?case by simp
next
  case (Cons out outs)
  show ?case
  proof (cases out)
    case (UrlThrows t)
    then show ?thesis by simp
  next
    case (UrlReturns v)
    then show ?thesis
      using Cons.IH [of "i + 1"]
      by (cases v) (auto simp: Let_def split: prod.splits sum.splits)
  qed
qed

lemma download_images_events:
  "download_images env prompt i outs = (r, evs) \<Longrightarrow> upstream_payloads evs = []"
  using download_images_no_upstream [of env prompt i outs] by simp

lemma payloads_v4:
  "upstream_payloads (snd (generate_image_v4 tn env arguments)) =
     (case replicate env of None \<Rightarrow> []
      | Some run \<Rightarrow>
          (case normalize_v4 tn (params_of arguments) of Inl e \<Rightarrow> [] | Inr input \<Rightarrow> [input]))"
  by (auto simp: generate_image_v4_def Let_def dest: download_images_events
           split: option.splits sum.splits settled.splits output_v4.splits prod.splits)

lemma payloads_v3:
  "upstream_payloads (snd (generate_image_v3 env arguments)) =
     (case replicate env of None \<Rightarrow> []
      | Some run \<Rightarrow>
          (case normalize_v3 (params_of arguments) of Inl e \<Rightarrow> [] | Inr input \<Rightarrow> [input]))"
  by (auto simp: generate_image_v3_def Let_def
           split: option.splits sum.splits settled.splits jsvalue.splits)

lemma no_tip_for_empty_output: "helpfulMessage_v4 (api_error_message_v4 EmptyOutput) = None"
  by (simp add: helpfulMessage_v4_def api_error_message_v4_def startsWith_def)

section \<open>Claims\<close>

text \<open>
  Claim C1, as the handlers have it. The 4.0 handler checks the dimensions last: for a
  request whose other fields validate and whose size is \<open>custom\<close>, a width that is a
  non-zero number outside 1024..4096 is rejected with \<open>InvalidDimensions\<close>, then a
  height likewise, nothing is sent upstream on rejection, and numbers within the bounds
  (the bounds included) or absent dimensions are accepted. The 3.0 handler has no
  dimension check: its validation does not read width or height at all.
\<close>

theorem custom_dimensions:
  assumes rest: "validate_v4 tn (params(''width'' := None, ''height'' := None)) = None"
      and custom: "get_prop params ''size'' = JStr ''custom''"
      and w: "params ''width'' = map_option JNum wo" "wo \<noteq> Some 0"
      and h: "params ''height'' = map_option JNum ho" "ho \<noteq> Some 0"
  shows "normalize_v4 tn params =
           (if (case wo of None \<Rightarrow> False | Some x \<Rightarrow> x < 1024 \<or> 4096 < x)
            then Inl (InvalidDimensions Width)
            else if (case ho of None \<Rightarrow> False | Some y \<Rightarrow> y < 1024 \<or> 4096 < y)
            then Inl (InvalidDimensions Height)
            else Inr (build_input_v4 params))
       \<and> (normalize_v4 tn params = Inr (build_input_v4 params)
          \<or> snd (generate_image_v4 tn env (Some params)) = [])
       \<and> validate_v3 (params3(''width'' := x3, ''height'' := y3)) = validate_v3 params3"
proof -
  have pw: "get_prop params ''width'' = (case wo of None \<Rightarrow> JUndefined | Some x \<Rightarrow> JNum x)"
    using w by (simp add: get_prop_def split: option.split)
  have ph: "get_prop params ''height'' = (case ho of None \<Rightarrow> JUndefined | Some y \<Rightarrow> JNum y)"
    using h by (simp add: get_prop_def split: option.split)
  have n: "normalize_v4 tn params =
           (if (case wo of None \<Rightarrow> False | Some x \<Rightarrow> x < 1024 \<or> 4096 < x)
            then Inl (InvalidDimensions Width)
            else if (case ho of None \<Rightarrow> False | Some y \<Rightarrow> y < 1024 \<or> 4096 < y)
            then Inl (InvalidDimensions Height)
            else Inr (build_input_v4 params))"
    using w(2) h(2)
    unfolding normalize_v4_def validate_v4_dimensions [OF rest custom] pw ph
    by (cases wo; cases ho) (auto simp add: js_lt_def js_gt_def)
  have e: "normalize_v4 tn params = Inr (build_input_v4 params)
          \<or> snd (generate_image_v4 tn env (Some params)) = []"
  proof (cases "normalize_v4 tn params")
    case (Inl e)
    then have "normalize_v4 tn (params_of (Some params)) = Inl e" by (simp add: params_of_def)
    from invalid_call_v4 [OF this] show ?thesis by simp
  next
    case (Inr pl)
    then show ?thesis by (simp add: normalize_v4_def split: option.splits)
  qed
  have v3: "validate_v3 (params3(''width'' := x3, ''height'' := y3)) = validate_v3 params3"
    by (simp add: validate_v3_def get_prop_def)
  from n e v3 show ?thesis by blast
qed

text \<open>
  The theorem at the bounds of the 4.0 range: width 1023 is rejected before any upstream
  call, width 1024 with height 4096 is accepted, height 4097 is rejected.
\<close>

theorem custom_dimensions_witness:
  "validate_v4 nan_runtime
     ([''prompt'' \<mapsto> JStr ''x'', ''size'' \<mapsto> JStr ''custom'', ''width'' \<mapsto> JNum 1023]
        (''width'' := None, ''height'' := None)) = None
   \<and> normalize_v4 nan_runtime
       [''prompt'' \<mapsto> JStr ''x'', ''size'' \<mapsto> JStr ''custom'', ''width'' \<mapsto> JNum 1023]
       = Inl (InvalidDimensions Width)
   \<and> snd (generate_image_v4 nan_runtime env_empty_output_v4
        (Some [''prompt'' \<mapsto> JStr ''x'', ''size'' \<mapsto> JStr ''custom'', ''width'' \<mapsto> JNum 1023])) = []
   \<and> normalize_v4 nan_runtime
       [''prompt'' \<mapsto> JStr ''x'', ''size'' \<mapsto> JStr ''custom'', ''width'' \<mapsto> JNum 1024,
        ''height'' \<mapsto> JNum 4096]
       = Inr [(''prompt'', JStr ''x''), (''size'', JStr ''custom''), (''max_images'', JNum 1),
              (''image_input'', JArr []), (''aspect_ratio'', JStr ''match_input_image''),
              (''sequential_image_generation'', JStr ''disabled''),
              (''width'', JNum 1024), (''height'', JNum 4096)]
   \<and> normalize_v4 nan_runtime
       [''prompt'' \<mapsto> JStr ''x'', ''size'' \<mapsto> JStr ''custom'', ''height'' \<mapsto> JNum 4097]
       = Inl (InvalidDimensions Height)"
proof -
  let ?a = "[''prompt'' \<mapsto> JStr ''x'', ''size'' \<mapsto> JStr ''custom'', ''width'' \<mapsto> JNum 1023]"
  let ?b = "[''prompt'' \<mapsto> JStr ''x'', ''size'' \<mapsto> JStr ''custom'', ''width'' \<mapsto> JNum 1024,
             ''height'' \<mapsto> JNum 4096]"
  let ?c = "[''prompt'' \<mapsto> JStr ''x'', ''size'' \<mapsto> JStr ''custom'', ''height'' \<mapsto> JNum 4097]"
  have ra: "validate_v4 nan_runtime (?a(''width'' := None, ''height'' := None)) = None"
    by (simp add: v4_defs)
  have rb: "validate_v4 nan_runtime (?b(''width'' := None, ''height'' := None)) = None"
    by (simp add: v4_defs)
  have rc: "validate_v4 nan_runtime (?c(''width'' := None, ''height'' := None)) = None"
    by (simp add: v4_defs)
  have a: "normalize_v4 nan_runtime ?a = Inl (InvalidDimensions Width)
           \<and> snd (generate_image_v4 nan_runtime env_empty_output_v4 (Some ?a)) = []"
    using custom_dimensions [OF ra, of "Some 1023" None env_empty_output_v4 Map.empty None None]
    by (auto simp add: get_prop_def)
  have b: "normalize_v4 nan_runtime ?b = Inr (build_input_v4 ?b)"
    using custom_dimensions [OF rb, of "Some 1024" "Some 4096" env_empty_output_v4 Map.empty None None]
    by (simp add: get_prop_def)
  have c: "normalize_v4 nan_runtime ?c = Inl (InvalidDimensions Height)"
    using custom_dimensions [OF rc, of None "Some 4097" env_empty_output_v4 Map.empty None None]
    by (simp add: get_prop_def)
  have pb: "build_input_v4 ?b =
             [(''prompt'', JStr ''x''), (''size'', JStr ''custom''), (''max_images'', JNum 1),
              (''image_input'', JArr []), (''aspect_ratio'', JStr ''match_input_image''),
              (''sequential_image_generation'', JStr ''disabled''),
              (''width'', JNum 1024), (''height'', JNum 4096)]"
    by (simp add: build_input_v4_def get_prop_def or_else_def)
  from ra a b c pb show ?thesis by simp
qed

text \<open>
  Claim C1 as stated fails on its own example: the 3.0 handler accepts
  \<open>{prompt: "x", aspect_ratio: "custom", width: 100}\<close> and sends width 100 upstream.
\<close>

theorem custom_width_100_accepted_v3:
  "normalize_v3 [''prompt'' \<mapsto> JStr ''x'', ''aspect_ratio'' \<mapsto> JStr ''custom'',
                 ''width'' \<mapsto> JNum 100] =
     Inr [(''prompt'', JStr ''x''), (''aspect_ratio'', JStr ''custom''),
          (''guidance_scale'', JNum 2.5), (''width'', JNum 100), (''height'', JNum 2048)]"
  by (simp add: v3_defs)

text \<open>
  Claim C2 at its boundary values on the 4.0 handler: 1 and 15 are accepted and 16 is
  rejected with \<open>InvalidMaxImages\<close>, but 0 is not rejected: it passes validation and the
  payload carries \<open>max_images = 1\<close>.
\<close>

theorem max_images_boundaries:
  "normalize_v4 nan_runtime [''prompt'' \<mapsto> JStr ''x'', ''max_images'' \<mapsto> JNum 0] =
     Inr [(''prompt'', JStr ''x''), (''size'', JStr ''2K''), (''max_images'', JNum 1),
          (''image_input'', JArr []), (''aspect_ratio'', JStr ''match_input_image''),
          (''sequential_image_generation'', JStr ''disabled'')]
   \<and> normalize_v4 nan_runtime [''prompt'' \<mapsto> JStr ''x'', ''max_images'' \<mapsto> JNum 1] =
     Inr [(''prompt'', JStr ''x''), (''size'', JStr ''2K''), (''max_images'', JNum 1),
          (''image_input'', JArr []), (''aspect_ratio'', JStr ''match_input_image''),
          (''sequential_image_generation'', JStr ''disabled'')]
   \<and> normalize_v4 nan_runtime [''prompt'' \<mapsto> JStr ''x'', ''max_images'' \<mapsto> JNum 15] =
     Inr [(''prompt'', JStr ''x''), (''size'', JStr ''2K''), (''max_images'', JNum 15),
          (''image_input'', JArr []), (''aspect_ratio'', JStr ''match_input_image''),
          (''sequential_image_generation'', JStr ''disabled'')]
   \<and> normalize_v4 nan_runtime [''prompt'' \<mapsto> JStr ''x'', ''max_images'' \<mapsto> JNum 16] =
     Inl InvalidMaxImages"
  by (simp add: v4_defs)

text \<open>
  Claim C3, as the handlers have it. Each handler fails with the first check of its own
  order that rejects the arguments, and succeeds when none does: the 3.0 handler runs
  prompt, aspect ratio, size; the 4.0 handler runs prompt, size, aspect ratio,
  sequential mode, maximum of images, input images, width, height. So with a prompt
  that is a non-empty string, a truthy aspect ratio outside its set gives
  \<open>InvalidAspectRatio\<close> on 3.0 whatever the size, and a truthy size outside its set
  gives \<open>InvalidSize\<close> on 4.0 whatever the aspect ratio.
\<close>

theorem validation_order:
  "normalize_v3 params =
     (case find (rejects_v3 params) check_order_v3 of
        Some e \<Rightarrow> Inl e | None \<Rightarrow> Inr (build_input_v3 params))
   \<and> normalize_v4 tn params =
     (case find (rejects_v4 tn params) check_order_v4 of
        Some e \<Rightarrow> Inl e | None \<Rightarrow> Inr (build_input_v4 params))
   \<and> (get_prop params ''prompt'' = JStr p \<and> p \<noteq> [] \<longrightarrow>
        (truthy (get_prop params ''aspect_ratio'')
            \<and> \<not> js_includes VALID_ASPECT_RATIOS_v3 (get_prop params ''aspect_ratio'')
          \<longrightarrow> normalize_v3 params = Inl InvalidAspectRatio)
       \<and> (truthy (get_prop params ''size'')
            \<and> \<not> js_includes VALID_SIZES_v4 (get_prop params ''size'')
          \<longrightarrow> normalize_v4 tn params = Inl InvalidSize)
       \<and> (\<not> (truthy (get_prop params ''size'')
                \<and> \<not> js_includes VALID_SIZES_v4 (get_prop params ''size''))
            \<and> truthy (get_prop params ''aspect_ratio'')
            \<and> \<not> js_includes VALID_ASPECT_RATIOS_v4 (get_prop params ''aspect_ratio'')
          \<longrightarrow> normalize_v4 tn params = Inl InvalidAspectRatio))"
proof -
  have a: "validate_v3 params = find (rejects_v3 params) check_order_v3"
    unfolding validate_v3_def check_order_v3_def find.simps rejects_v3.simps by (rule refl)
  have b: "validate_v4 tn params = find (rejects_v4 tn params) check_order_v4"
    unfolding validate_v4_def check_order_v4_def find.simps rejects_v4.simps by (rule refl)
  have c: "get_prop params ''prompt'' = JStr p \<and> p \<noteq> [] \<longrightarrow>
        (truthy (get_prop params ''aspect_ratio'')
            \<and> \<not> js_includes VALID_ASPECT_RATIOS_v3 (get_prop params ''aspect_ratio'')
          \<longrightarrow> normalize_v3 params = Inl InvalidAspectRatio)
       \<and> (truthy (get_prop params ''size'')
            \<and> \<not> js_includes VALID_SIZES_v4 (get_prop params ''size'')
          \<longrightarrow> normalize_v4 tn params = Inl InvalidSize)
       \<and> (\<not> (truthy (get_prop params ''size'')
                \<and> \<not> js_includes VALID_SIZES_v4 (get_prop params ''size''))
            \<and> truthy (get_prop params ''aspect_ratio'')
            \<and> \<not> js_includes VALID_ASPECT_RATIOS_v4 (get_prop params ''aspect_ratio'')
          \<longrightarrow> normalize_v4 tn params = Inl InvalidAspectRatio)"
  proof
    assume h: "get_prop params ''prompt'' = JStr p \<and> p \<noteq> []"
    have pr: "(\<not> truthy (get_prop params ''prompt'')
               \<or> typeof (get_prop params ''prompt'') \<noteq> ''string'') = False"
      using h by simp
    show "(truthy (get_prop params ''aspect_ratio'')
            \<and> \<not> js_includes VALID_ASPECT_RATIOS_v3 (get_prop params ''aspect_ratio'')
          \<longrightarrow> normalize_v3 params = Inl InvalidAspectRatio)
       \<and> (truthy (get_prop params ''size'')
            \<and> \<not> js_includes VALID_SIZES_v4 (get_prop params ''size'')
          \<longrightarrow> normalize_v4 tn params = Inl InvalidSize)
       \<and> (\<not> (truthy (get_prop params ''size'')
                \<and> \<not> js_includes VALID_SIZES_v4 (get_prop params ''size''))
            \<and> truthy (get_prop params ''aspect_ratio'')
            \<and> \<not> js_includes VALID_ASPECT_RATIOS_v4 (get_prop params ''aspect_ratio'')
          \<longrightarrow> normalize_v4 tn params = Inl InvalidAspectRatio)"
      unfolding normalize_v3_def normalize_v4_def validate_v3_def validate_v4_def pr
      by simp
  qed
  have n3: "normalize_v3 params =
     (case find (rejects_v3 params) check_order_v3 of
        Some e \<Rightarrow> Inl e | None \<Rightarrow> Inr (build_input_v3 params))"
    unfolding normalize_v3_def a by (rule refl)
  have n4: "normalize_v4 tn params =
     (case find (rejects_v4 tn params) check_order_v4 of
        Some e \<Rightarrow> Inl e | None \<Rightarrow> Inr (build_input_v4 params))"
    unfolding normalize_v4_def b by (rule refl)
  from n3 n4 c show ?thesis by blast
qed

text \<open>
  The theorem on requests that fail two checks at once, one for every neighbouring
  pair of each order, and on the two requests of the special case.
\<close>

theorem validation_order_witness:
  "normalize_v3 [''aspect_ratio'' \<mapsto> JStr ''5:4''] = Inl MissingPrompt
   \<and> normalize_v3 [''prompt'' \<mapsto> JStr ''x'', ''aspect_ratio'' \<mapsto> JStr ''5:4'',
                    ''size'' \<mapsto> JStr ''huge''] = Inl InvalidAspectRatio
   \<and> normalize_v3 [''prompt'' \<mapsto> JStr ''x'', ''size'' \<mapsto> JStr ''huge''] = Inl InvalidSize
   \<and> normalize_v4 nan_runtime [''size'' \<mapsto> JStr ''huge''] = Inl MissingPrompt
   \<and> normalize_v4 nan_runtime [''prompt'' \<mapsto> JStr ''x'', ''aspect_ratio'' \<mapsto> JStr ''5:4'',
                    ''size'' \<mapsto> JStr ''huge''] = Inl InvalidSize
   \<and> normalize_v4 nan_runtime [''prompt'' \<mapsto> JStr ''x'', ''aspect_ratio'' \<mapsto> JStr ''custom'',
                    ''size'' \<mapsto> JStr ''2K'',
                    ''sequential_image_generation'' \<mapsto> JStr ''manual''] = Inl InvalidAspectRatio
   \<and> normalize_v4 nan_runtime [''prompt'' \<mapsto> JStr ''x'',
                    ''sequential_image_generation'' \<mapsto> JStr ''manual'',
                    ''max_images'' \<mapsto> JNum 16] = Inl InvalidSequentialMode
   \<and> normalize_v4 nan_runtime [''prompt'' \<mapsto> JStr ''x'', ''max_images'' \<mapsto> JNum 16,
                    ''image_input'' \<mapsto> JArr (List.replicate 11 (JStr ''https://h/i''))]
       = Inl InvalidMaxImages
   \<and> normalize_v4 nan_runtime [''prompt'' \<mapsto> JStr ''x'', ''size'' \<mapsto> JStr ''custom'',
                    ''image_input'' \<mapsto> JArr (List.replicate 11 (JStr ''https://h/i'')),
                    ''width'' \<mapsto> JNum 5] = Inl TooManyInputImages
   \<and> normalize_v4 nan_runtime [''prompt'' \<mapsto> JStr ''x'', ''size'' \<mapsto> JStr ''custom'',
                    ''width'' \<mapsto> JNum 5, ''height'' \<mapsto> JNum 5] = Inl (InvalidDimensions Width)
   \<and> normalize_v4 nan_runtime [''prompt'' \<mapsto> JStr ''x'', ''size'' \<mapsto> JStr ''custom'',
                    ''height'' \<mapsto> JNum 5] = Inl (InvalidDimensions Height)"
proof -
  let ?a = "[''aspect_ratio'' \<mapsto> JStr ''5:4'']"
  let ?b = "[''prompt'' \<mapsto> JStr ''x'', ''aspect_ratio'' \<mapsto> JStr ''5:4'', ''size'' \<mapsto> JStr ''huge'']"
  let ?c = "[''prompt'' \<mapsto> JStr ''x'', ''size'' \<mapsto> JStr ''huge'']"
  let ?d = "[''size'' \<mapsto> JStr ''huge'']"
  let ?e = "[''prompt'' \<mapsto> JStr ''x'', ''aspect_ratio'' \<mapsto> JStr ''custom'', ''size'' \<mapsto> JStr ''2K'',
             ''sequential_image_generation'' \<mapsto> JStr ''manual'']"
  let ?f = "[''prompt'' \<mapsto> JStr ''x'', ''sequential_image_generation'' \<mapsto> JStr ''manual'',
             ''max_images'' \<mapsto> JNum 16]"
  let ?g = "[''prompt'' \<mapsto> JStr ''x'', ''max_images'' \<mapsto> JNum 16,
             ''image_input'' \<mapsto> JArr (List.replicate 11 (JStr ''https://h/i''))]"
  let ?h = "[''prompt'' \<mapsto> JStr ''x'', ''size'' \<mapsto> JStr ''custom'',
             ''image_input'' \<mapsto> JArr (List.replicate 11 (JStr ''https://h/i'')), ''width'' \<mapsto> JNum 5]"
  let ?i = "[''prompt'' \<mapsto> JStr ''x'', ''size'' \<mapsto> JStr ''custom'',
             ''width'' \<mapsto> JNum 5, ''height'' \<mapsto> JNum 5]"
  let ?j = "[''prompt'' \<mapsto> JStr ''x'', ''size'' \<mapsto> JStr ''custom'', ''height'' \<mapsto> JNum 5]"
  note ev = check_order_v3_def check_order_v4_def get_prop_def js_includes_def js_lt_def js_gt_def
    VALID_ASPECT_RATIOS_v3_def VALID_SIZES_v3_def VALID_ASPECT_RATIOS_v4_def VALID_SIZES_v4_def
    VALID_SEQUENTIAL_MODES_def
  have a: "normalize_v3 ?a = Inl MissingPrompt"
    using validation_order [of ?a nan_runtime "''x''"] by (simp add: ev)
  have b: "normalize_v3 ?b = Inl InvalidAspectRatio \<and> normalize_v4 nan_runtime ?b = Inl InvalidSize"
    using validation_order [of ?b nan_runtime "''x''"] by (simp add: ev)
  have c: "normalize_v3 ?c = Inl InvalidSize"
    using validation_order [of ?c nan_runtime "''x''"] by (simp add: ev)
  have d: "normalize_v4 nan_runtime ?d = Inl MissingPrompt"
    using validation_order [of ?d nan_runtime "''x''"] by (simp add: ev)
  have e: "normalize_v4 nan_runtime ?e = Inl InvalidAspectRatio"
    using validation_order [of ?e nan_runtime "''x''"] by (simp add: ev)
  have f: "normalize_v4 nan_runtime ?f = Inl InvalidSequentialMode"
    using validation_order [of ?f nan_runtime "''x''"] by (simp add: ev)
  have g: "normalize_v4 nan_runtime ?g = Inl InvalidMaxImages"
    using validation_order [of ?g nan_runtime "''x''"] by (simp add: ev)
  have h: "normalize_v4 nan_runtime ?h = Inl TooManyInputImages"
    using validation_order [of ?h nan_runtime "''x''"] by (simp add: ev)
  have i: "normalize_v4 nan_runtime ?i = Inl (InvalidDimensions Width)"
    using validation_order [of ?i nan_runtime "''x''"] by (simp add: ev)
  have j: "normalize_v4 nan_runtime ?j = Inl (InvalidDimensions Height)"
    using validation_order [of ?j nan_runtime "''x''"] by (simp add: ev)
  from a b c d e f g h i j show ?thesis by simp
qed

text \<open>
  Claim C3 as stated fails on the 4.0 handler: with both fields outside their sets the
  call fails with \<open>InvalidSize\<close>, not \<open>InvalidAspectRatio\<close>.
\<close>

theorem both_invalid_gives_size_error_v4:
  "normalize_v4 nan_runtime [''prompt'' \<mapsto> JStr ''x'', ''aspect_ratio'' \<mapsto> JStr ''bad'',
                             ''size'' \<mapsto> JStr ''bad''] = Inl InvalidSize
   \<and> normalize_v4 nan_runtime [''prompt'' \<mapsto> JStr ''x'', ''aspect_ratio'' \<mapsto> JStr ''bad'',
                             ''size'' \<mapsto> JStr ''bad''] \<noteq> Inl InvalidAspectRatio"
  by (simp add: v4_defs)

text \<open>
  Claim C4, as the handlers have it. For every valid input the 3.0 payload has \<open>size\<close>
  exactly when its aspect ratio is not \<open>custom\<close> and has \<open>width\<close> and \<open>height\<close>
  exactly when it is; the 4.0 payload has \<open>width\<close> and \<open>height\<close> exactly when its size
  is \<open>custom\<close>. The payload's mode is the input's mode. The 4.0 payload always
  carries \<open>size\<close> and \<open>aspect_ratio\<close>, also next to explicit dimensions.
\<close>

theorem payload_fields:
  "(normalize_v3 params = Inr pl \<longrightarrow>
      (''size'' \<in> set (map fst pl) \<longleftrightarrow> input_prop pl ''aspect_ratio'' \<noteq> JStr ''custom'')
    \<and> (''width'' \<in> set (map fst pl) \<longleftrightarrow> input_prop pl ''aspect_ratio'' = JStr ''custom'')
    \<and> (''height'' \<in> set (map fst pl) \<longleftrightarrow> input_prop pl ''aspect_ratio'' = JStr ''custom'')
    \<and> (input_prop pl ''aspect_ratio'' = JStr ''custom''
         \<longleftrightarrow> get_prop params ''aspect_ratio'' = JStr ''custom''))
 \<and> (normalize_v4 tn params' = Inr pl' \<longrightarrow>
      (''width'' \<in> set (map fst pl') \<longleftrightarrow> input_prop pl' ''size'' = JStr ''custom'')
    \<and> (''height'' \<in> set (map fst pl') \<longleftrightarrow> input_prop pl' ''size'' = JStr ''custom'')
    \<and> (input_prop pl' ''size'' = JStr ''custom'' \<longleftrightarrow> get_prop params' ''size'' = JStr ''custom'')
    \<and> ''size'' \<in> set (map fst pl') \<and> ''aspect_ratio'' \<in> set (map fst pl'))"
proof -
  have oe: "\<And>a s. s \<noteq> ''custom'' \<Longrightarrow> (or_else a (JStr s) = JStr ''custom'') = (a = JStr ''custom'')"
    by (auto simp: or_else_def)
  have v3: "normalize_v3 params = Inr pl \<Longrightarrow> pl = build_input_v3 params"
    by (simp add: normalize_v3_def split: option.splits)
  have v4: "normalize_v4 tn params' = Inr pl' \<Longrightarrow> pl' = build_input_v4 params'"
    by (simp add: normalize_v4_def split: option.splits)
  have a3: "input_prop (build_input_v3 params) ''aspect_ratio''
              = or_else (get_prop params ''aspect_ratio'') (JStr ''16:9'')"
    by (simp add: input_prop_def build_input_v3_def)
  have a4: "input_prop (build_input_v4 params') ''size''
              = or_else (get_prop params' ''size'') (JStr ''2K'')"
    by (simp add: input_prop_def build_input_v4_def)
  have k3: "map fst (build_input_v3 params) =
             [''prompt'', ''aspect_ratio'', ''guidance_scale'']
             @ (if get_prop params ''aspect_ratio'' \<noteq> JStr ''custom'' then [''size''] else [])
             @ (if get_prop params ''aspect_ratio'' = JStr ''custom'' then [''width'', ''height''] else [])
             @ (if get_prop params ''seed'' \<noteq> JUndefined then [''seed''] else [])"
    by (simp add: build_input_v3_def)
  have k4: "map fst (build_input_v4 params') =
             [''prompt'', ''size'', ''max_images'', ''image_input'', ''aspect_ratio'',
              ''sequential_image_generation'']
             @ (if get_prop params' ''size'' = JStr ''custom'' then [''width'', ''height''] else [])"
    by (simp add: build_input_v4_def)
  have c3: "normalize_v3 params = Inr pl \<longrightarrow>
      (''size'' \<in> set (map fst pl) \<longleftrightarrow> input_prop pl ''aspect_ratio'' \<noteq> JStr ''custom'')
    \<and> (''width'' \<in> set (map fst pl) \<longleftrightarrow> input_prop pl ''aspect_ratio'' = JStr ''custom'')
    \<and> (''height'' \<in> set (map fst pl) \<longleftrightarrow> input_prop pl ''aspect_ratio'' = JStr ''custom'')
    \<and> (input_prop pl ''aspect_ratio'' = JStr ''custom''
         \<longleftrightarrow> get_prop params ''aspect_ratio'' = JStr ''custom'')"
  proof
    assume "normalize_v3 params = Inr pl"
    then have pl: "pl = build_input_v3 params" by (rule v3)
    show "(''size'' \<in> set (map fst pl) \<longleftrightarrow> input_prop pl ''aspect_ratio'' \<noteq> JStr ''custom'')
    \<and> (''width'' \<in> set (map fst pl) \<longleftrightarrow> input_prop pl ''aspect_ratio'' = JStr ''custom'')
    \<and> (''height'' \<in> set (map fst pl) \<longleftrightarrow> input_prop pl ''aspect_ratio'' = JStr ''custom'')
    \<and> (input_prop pl ''aspect_ratio'' = JStr ''custom''
         \<longleftrightarrow> get_prop params ''aspect_ratio'' = JStr ''custom'')"
      unfolding pl k3 a3 by (simp add: oe)
  qed
  have c4: "normalize_v4 tn params' = Inr pl' \<longrightarrow>
      (''width'' \<in> set (map fst pl') \<longleftrightarrow> input_prop pl' ''size'' = JStr ''custom'')
    \<and> (''height'' \<in> set (map fst pl') \<longleftrightarrow> input_prop pl' ''size'' = JStr ''custom'')
    \<and> (input_prop pl' ''size'' = JStr ''custom'' \<longleftrightarrow> get_prop params' ''size'' = JStr ''custom'')
    \<and> ''size'' \<in> set (map fst pl') \<and> ''aspect_ratio'' \<in> set (map fst pl')"
  proof
    assume "normalize_v4 tn params' = Inr pl'"
    then have pl: "pl' = build_input_v4 params'" by (rule v4)
    show "(''width'' \<in> set (map fst pl') \<longleftrightarrow> input_prop pl' ''size'' = JStr ''custom'')
    \<and> (''height'' \<in> set (map fst pl') \<longleftrightarrow> input_prop pl' ''size'' = JStr ''custom'')
    \<and> (input_prop pl' ''size'' = JStr ''custom'' \<longleftrightarrow> get_prop params' ''size'' = JStr ''custom'')
    \<and> ''size'' \<in> set (map fst pl') \<and> ''aspect_ratio'' \<in> set (map fst pl')"
      unfolding pl k4 a4 by (simp add: oe)
  qed
  from c3 c4 show ?thesis by blast
qed

text \<open>
  The theorem on a 3.0 request with a custom aspect ratio and on a 4.0 request with a
  named size: the first payload has the dimensions and no size, the second has no
  dimensions.
\<close>

theorem payload_fields_witness:
  "normalize_v3 [''prompt'' \<mapsto> JStr ''x'', ''aspect_ratio'' \<mapsto> JStr ''custom'',
                 ''size'' \<mapsto> JStr ''big'', ''width'' \<mapsto> JNum 600] =
     Inr [(''prompt'', JStr ''x''), (''aspect_ratio'', JStr ''custom''),
          (''guidance_scale'', JNum 2.5), (''width'', JNum 600), (''height'', JNum 2048)]
   \<and> ''size'' \<notin> set (map fst
        [(''prompt'', JStr ''x''), (''aspect_ratio'', JStr ''custom''),
         (''guidance_scale'', JNum 2.5), (''width'', JNum 600), (''height'', JNum 2048)])
   \<and> normalize_v4 nan_runtime [''prompt'' \<mapsto> JStr ''x'', ''size'' \<mapsto> JStr ''4K'',
                                ''width'' \<mapsto> JNum 3000] =
     Inr ([(''prompt'', JStr ''x''), (''size'', JStr ''4K''), (''max_images'', JNum 1),
          (''image_input'', JArr []), (''aspect_ratio'', JStr ''match_input_image''),
          (''sequential_image_generation'', JStr ''disabled'')])
   \<and> ''width'' \<notin> set (map fst ([(''prompt'', JStr ''x''), (''size'', JStr ''4K''), (''max_images'', JNum 1),
          (''image_input'', JArr []), (''aspect_ratio'', JStr ''match_input_image''),
          (''sequential_image_generation'', JStr ''disabled'')]))"
proof -
  let ?p3 = "[''prompt'' \<mapsto> JStr ''x'', ''aspect_ratio'' \<mapsto> JStr ''custom'',
              ''size'' \<mapsto> JStr ''big'', ''width'' \<mapsto> JNum 600]"
  let ?pl3 = "[(''prompt'', JStr ''x''), (''aspect_ratio'', JStr ''custom''),
               (''guidance_scale'', JNum 2.5), (''width'', JNum 600), (''height'', JNum 2048)]"
  let ?p4 = "[''prompt'' \<mapsto> JStr ''x'', ''size'' \<mapsto> JStr ''4K'', ''width'' \<mapsto> JNum 3000]"
  let ?pl4 = "[(''prompt'', JStr ''x''), (''size'', JStr ''4K''), (''max_images'', JNum 1),
          (''image_input'', JArr []), (''aspect_ratio'', JStr ''match_input_image''),
          (''sequential_image_generation'', JStr ''disabled'')]"
  have n3: "normalize_v3 ?p3 = Inr ?pl3" by (simp add: v3_defs)
  have n4: "normalize_v4 nan_runtime ?p4 = Inr ?pl4" by (simp add: v4_defs)
  have i3: "input_prop ?pl3 ''aspect_ratio'' = JStr ''custom''" by (simp add: input_prop_def)
  have i4: "input_prop ?pl4 ''size'' = JStr ''4K''" by (simp add: input_prop_def)
  have "''size'' \<notin> set (map fst ?pl3) \<and> ''width'' \<notin> set (map fst ?pl4)"
    using payload_fields [of ?p3 ?pl3 nan_runtime ?p4 ?pl4] n3 n4 i3 i4 by simp
  with n3 n4 show ?thesis by simp
qed

text \<open>
  Claim C4 as stated fails in its last part on the 4.0 handler: with size \<open>custom\<close> the
  payload carries the named aspect ratio \<open>16:9\<close> and the size field next to explicit
  pixel dimensions.
\<close>

theorem aspect_ratio_with_dimensions_v4:
  "normalize_v4 nan_runtime [''prompt'' \<mapsto> JStr ''x'', ''size'' \<mapsto> JStr ''custom'',
                             ''aspect_ratio'' \<mapsto> JStr ''16:9''] =
     Inr [(''prompt'', JStr ''x''), (''size'', JStr ''custom''), (''max_images'', JNum 1),
          (''image_input'', JArr []), (''aspect_ratio'', JStr ''16:9''),
          (''sequential_image_generation'', JStr ''disabled''),
          (''width'', JNum 2048), (''height'', JNum 2048)]"
  by (simp add: v4_defs)

text \<open>
  Claim C5. When the prompt is absent, is not a string or is the empty string, both
  versions fail with \<open>MissingPrompt\<close>, and the handler returns without any event: no
  upstream call and no download.
\<close>

theorem missing_prompt_rejected:
  assumes "typeof (get_prop (params_of arguments) ''prompt'') \<noteq> ''string''
           \<or> get_prop (params_of arguments) ''prompt'' = JStr []"
  shows "normalize_v3 (params_of arguments) = Inl MissingPrompt
       \<and> normalize_v4 tn (params_of arguments) = Inl MissingPrompt
       \<and> generate_image_v3 env3 arguments =
           (if replicate env3 = None then ConfigurationError else ValidationFailed MissingPrompt, [])
       \<and> generate_image_v4 tn env4 arguments =
           (if replicate env4 = None then ConfigurationError else ValidationFailed MissingPrompt, [])"
proof -
  have a: "normalize_v3 (params_of arguments) = Inl MissingPrompt"
    by (rule missing_prompt_v3 [OF assms])
  have b: "normalize_v4 tn (params_of arguments) = Inl MissingPrompt"
    by (rule missing_prompt_v4 [OF assms])
  show ?thesis
    using a b invalid_call_v3 [OF a] invalid_call_v4 [OF b] by blast
qed

text \<open>
  The theorem on a call without arguments, on a numeric prompt and on an empty prompt,
  with the client present.
\<close>

theorem missing_prompt_rejected_witness:
  "typeof (get_prop (params_of None) ''prompt'') \<noteq> ''string''
   \<and> generate_image_v3 env_one_image_v3 None = (ValidationFailed MissingPrompt, [])
   \<and> generate_image_v4 nan_runtime env_three_images_v4 None = (ValidationFailed MissingPrompt, [])
   \<and> generate_image_v3 env_one_image_v3 (Some [''prompt'' \<mapsto> JNum 5])
       = (ValidationFailed MissingPrompt, [])
   \<and> generate_image_v4 nan_runtime env_three_images_v4 (Some [''prompt'' \<mapsto> JStr []])
       = (ValidationFailed MissingPrompt, [])"
proof -
  have h1: "typeof (get_prop (params_of None) ''prompt'') \<noteq> ''string''"
    by (simp add: params_of_def get_prop_def)
  have h2: "typeof (get_prop (params_of (Some [''prompt'' \<mapsto> JNum 5])) ''prompt'') \<noteq> ''string''"
    by (simp add: params_of_def get_prop_def)
  have h3: "get_prop (params_of (Some [''prompt'' \<mapsto> JStr []])) ''prompt'' = JStr []"
    by (simp add: params_of_def get_prop_def)
  have r3: "replicate env_one_image_v3 \<noteq> None" and r4: "replicate env_three_images_v4 \<noteq> None"
    by (simp_all add: env_defs)
  show ?thesis
    using h1 r3 r4
      missing_prompt_rejected [OF disjI1 [OF h1], of nan_runtime env_one_image_v3 env_three_images_v4]
      missing_prompt_rejected [OF disjI1 [OF h2], of nan_runtime env_one_image_v3 env_three_images_v4]
      missing_prompt_rejected [OF disjI2 [OF h3], of nan_runtime env_one_image_v3 env_three_images_v4]
    by simp
qed

text \<open>
  Claim C6. The 3.0 request \<open>{prompt: "a red fox"}\<close> normalizes to the payload with
  exactly the four fields prompt, aspect ratio \<open>16:9\<close>, guidance scale 2.5 and size
  \<open>regular\<close>; it has no seed, width or height.
\<close>

theorem red_fox_payload_v3:
  "normalize_v3 [''prompt'' \<mapsto> JStr ''a red fox''] =
     Inr [(''prompt'', JStr ''a red fox''), (''aspect_ratio'', JStr ''16:9''),
          (''guidance_scale'', JNum 2.5), (''size'', JStr ''regular'')]
   \<and> set (build_input_v3 [''prompt'' \<mapsto> JStr ''a red fox'']) =
       {(''prompt'', JStr ''a red fox''), (''aspect_ratio'', JStr ''16:9''),
        (''size'', JStr ''regular''), (''guidance_scale'', JNum 2.5)}
   \<and> map fst (build_input_v3 [''prompt'' \<mapsto> JStr ''a red fox'']) =
       [''prompt'', ''aspect_ratio'', ''guidance_scale'', ''size'']"
proof -
  have b: "build_input_v3 [''prompt'' \<mapsto> JStr ''a red fox''] =
       [(''prompt'', JStr ''a red fox''), (''aspect_ratio'', JStr ''16:9''),
        (''guidance_scale'', JNum 2.5), (''size'', JStr ''regular'')]"
    by (simp add: v3_defs)
  have n: "normalize_v3 [''prompt'' \<mapsto> JStr ''a red fox''] =
       Inr (build_input_v3 [''prompt'' \<mapsto> JStr ''a red fox''])"
    by (simp add: v3_defs)
  show ?thesis unfolding n b by (simp add: insert_commute)
qed

text \<open>
  Claim C7. When the 4.0 model returns something that is not an array, or an empty
  array, the call fails with \<open>EmptyOutput\<close>: the response is flagged as an error and
  the only event of the call is the upstream call itself, with no download.
\<close>

theorem empty_output_fails_v4:
  assumes "replicate env = Some run"
      and "normalize_v4 tn (params_of arguments) = Inr input"
      and "run ''bytedance/seedream-4'' input = Resolved NotArray
           \<or> run ''bytedance/seedream-4'' input = Resolved (Array [])"
  shows "generate_image_v4 tn env arguments =
           (UpstreamFailed EmptyOutput None, [UpstreamCall ''bytedance/seedream-4'' input])
       \<and> isError (fst (generate_image_v4 tn env arguments))
       \<and> downloads (snd (generate_image_v4 tn env arguments)) = []"
proof -
  have "generate_image_v4 tn env arguments =
           (UpstreamFailed EmptyOutput None, [UpstreamCall ''bytedance/seedream-4'' input])"
    using assms
    by (auto simp add: generate_image_v4_def api_failure_v4_def no_tip_for_empty_output)
  then show ?thesis by simp
qed

text \<open>The theorem on a valid request against a model that returns an empty array.\<close>

theorem empty_output_fails_v4_witness:
  "replicate env_empty_output_v4 = Some (\<lambda>m input. Resolved (Array []))
   \<and> normalize_v4 nan_runtime (params_of (Some [''prompt'' \<mapsto> JStr ''x'']))
       = Inr (default_input_v4 ''x'')
   \<and> generate_image_v4 nan_runtime env_empty_output_v4 (Some [''prompt'' \<mapsto> JStr ''x'']) =
       (UpstreamFailed EmptyOutput None,
        [UpstreamCall ''bytedance/seedream-4'' (default_input_v4 ''x'')])"
proof -
  have r: "replicate env_empty_output_v4 = Some (\<lambda>m input. Resolved (Array []))"
    by (simp add: env_defs)
  have n: "normalize_v4 nan_runtime (params_of (Some [''prompt'' \<mapsto> JStr ''x'']))
             = Inr (default_input_v4 ''x'')"
    by (simp add: v4_defs params_of_def default_input_v4_def)
  have o: "(\<lambda>m input. Resolved (Array [])) ''bytedance/seedream-4'' (default_input_v4 ''x'')
             = (Resolved NotArray :: output_v4 settled)
           \<or> (\<lambda>m input. Resolved (Array [])) ''bytedance/seedream-4'' (default_input_v4 ''x'')
             = (Resolved (Array []) :: output_v4 settled)"
    by simp
  from empty_output_fails_v4 [OF r n o] r n show ?thesis by simp
qed

text \<open>
  Claim C8. For every non-empty array the 4.0 model returns, the handler downloads the
  usable references one after the other, in the order returned, whatever the outcome
  of the earlier downloads: the downloads attempted are the same whether they succeed
  or not. A rejected download becomes a failure line of the result and never an
  error of the call; the call is an error only if a \<open>.url()\<close> throws.
\<close>

theorem downloads_independent:
  assumes "replicate env = Some run"
      and "normalize_v4 tn (params_of arguments) = Inr input"
      and "run ''bytedance/seedream-4'' input = Resolved (Array output)"
      and "output \<noteq> []"
  shows "generate_image_v4 tn env arguments =
           (case first_throw output of
              Some t \<Rightarrow> api_failure_v4 (Raised t)
            | None \<Rightarrow>
                Generated_v4
                  \<lparr>input_v4 = input,
                   generated = length output,
                   imageDetails =
                     map (\<lambda>(j, u).
                            case downloadImage env u
                                   (generateImageFilename_v4 (prompt_text (params_of arguments)) j
                                      (timestamp env)) of
                              Inr localPath \<Rightarrow>
                                if localPath \<noteq> [] then Saved (j + 1) localPath u
                                else DownloadFailed (j + 1) u
                            | Inl downloadError \<Rightarrow> DownloadFailed (j + 1) u)
                       (references 0 output),
                   successfulDownloads =
                     length (filter (\<lambda>(j, u).
                            case downloadImage env u
                                   (generateImageFilename_v4 (prompt_text (params_of arguments)) j
                                      (timestamp env)) of
                              Inr localPath \<Rightarrow> localPath \<noteq> []
                            | Inl downloadError \<Rightarrow> False)
                       (references 0 output))\<rparr>,
            UpstreamCall ''bytedance/seedream-4'' input
              # map (\<lambda>(j, u). Download u
                       (generateImageFilename_v4 (prompt_text (params_of arguments)) j (timestamp env)))
                  (references 0 output))
       \<and> isError (fst (generate_image_v4 tn env arguments)) = (first_throw output \<noteq> None)
       \<and> downloads (snd (generate_image_v4 tn env arguments)) = map snd (references 0 output)
       \<and> (output = map (\<lambda>u. UrlReturns (JStr u)) urls \<and> (\<forall>u \<in> set urls. startsWith u ''http'')
            \<longrightarrow> first_throw output = None \<and> references 0 output = enumerate 0 urls)"
proof -
  let ?fn = "\<lambda>j. generateImageFilename_v4 (prompt_text (params_of arguments)) j (timestamp env)"
  let ?img = "\<lambda>(j, u). case downloadImage env u (?fn j) of
                 Inr localPath \<Rightarrow> \<lparr>img_url = u, img_localPath = localPath, img_index = j\<rparr>
               | Inl downloadError \<Rightarrow> \<lparr>img_url = u, img_localPath = [], img_index = j\<rparr>"
  let ?refs = "references 0 output"
  have det: "map detail_of (map ?img ?refs) =
               map (\<lambda>(j, u). case downloadImage env u (?fn j) of
                        Inr localPath \<Rightarrow>
                          if localPath \<noteq> [] then Saved (j + 1) localPath u
                          else DownloadFailed (j + 1) u
                      | Inl downloadError \<Rightarrow> DownloadFailed (j + 1) u) ?refs"
    by (auto simp: detail_of_def split: sum.splits)
  have cnt: "length (filter (\<lambda>img. img_localPath img \<noteq> []) (map ?img ?refs)) =
               length (filter (\<lambda>(j, u). case downloadImage env u (?fn j) of
                        Inr localPath \<Rightarrow> localPath \<noteq> []
                      | Inl downloadError \<Rightarrow> False) ?refs)"
    unfolding filter_map length_map
    by (rule arg_cong [where f = length], rule filter_cong) (auto split: sum.splits)
  have dl: "\<And>rs. downloads (map (\<lambda>(j, u). Download u (?fn j)) rs) = map snd rs"
  proof -
    fix rs :: "(nat \<times> string) list"
    show "downloads (map (\<lambda>(j, u). Download u (?fn j)) rs) = map snd rs"
      by (induction rs) auto
  qed
  have main: "generate_image_v4 tn env arguments =
           (case first_throw output of
              Some t \<Rightarrow> api_failure_v4 (Raised t)
            | None \<Rightarrow>
                Generated_v4
                  \<lparr>input_v4 = input,
                   generated = length output,
                   imageDetails = map detail_of (map ?img ?refs),
                   successfulDownloads =
                     length (filter (\<lambda>img. img_localPath img \<noteq> []) (map ?img ?refs))\<rparr>,
            UpstreamCall ''bytedance/seedream-4'' input # map (\<lambda>(j, u). Download u (?fn j)) ?refs)"
    using assms
    by (simp add: generate_image_v4_def download_images_all Let_def split: option.split)
  have err: "isError (fst (generate_image_v4 tn env arguments)) = (first_throw output \<noteq> None)"
    unfolding main by (simp add: api_failure_v4_def split: option.split)
  have dls: "downloads (snd (generate_image_v4 tn env arguments)) = map snd ?refs"
    unfolding main by (simp add: dl)
  have all: "output = map (\<lambda>u. UrlReturns (JStr u)) urls \<and> (\<forall>u \<in> set urls. startsWith u ''http'')
            \<longrightarrow> first_throw output = None \<and> references 0 output = enumerate 0 urls"
    by (simp add: references_all_http)
  show ?thesis
    using err dls all unfolding main det cnt by blast
qed

text \<open>
  The theorem on two responses. Three references of which the second fails to
  download: all three are fetched in order, the result has two saved images and one
  failure line, and the call is a success. Four references of which the first fails
  to download and the next two are not usable: the first and the last are fetched, the
  result has one failure line and one saved image, and the call is a success.
\<close>

theorem downloads_independent_witness:
  "normalize_v4 nan_runtime (params_of (Some [''prompt'' \<mapsto> JStr ''x''])) = Inr (default_input_v4 ''x'')
   \<and> fst (generate_image_v4 nan_runtime env_three_images_v4 (Some [''prompt'' \<mapsto> JStr ''x''])) =
       Generated_v4
         \<lparr>input_v4 = default_input_v4 ''x'',
          generated = 3,
          imageDetails =
            [Saved 1 ''/srv/images/saved.jpg'' ''https://h/1'',
             DownloadFailed 2 ''https://h/2'',
             Saved 3 ''/srv/images/saved.jpg'' ''https://h/3''],
          successfulDownloads = 2\<rparr>
   \<and> \<not> isError (fst (generate_image_v4 nan_runtime env_three_images_v4
                        (Some [''prompt'' \<mapsto> JStr ''x''])))
   \<and> downloads (snd (generate_image_v4 nan_runtime env_three_images_v4
                        (Some [''prompt'' \<mapsto> JStr ''x'']))) =
       [''https://h/1'', ''https://h/2'', ''https://h/3'']
   \<and> fst (generate_image_v4 nan_runtime env_mixed_output_v4 (Some [''prompt'' \<mapsto> JStr ''x''])) =
       Generated_v4
         \<lparr>input_v4 = default_input_v4 ''x'',
          generated = 4,
          imageDetails =
            [DownloadFailed 1 ''https://h/1'',
             Saved 4 ''/srv/images/saved.jpg'' ''https://h/4''],
          successfulDownloads = 1\<rparr>
   \<and> \<not> isError (fst (generate_image_v4 nan_runtime env_mixed_output_v4
                        (Some [''prompt'' \<mapsto> JStr ''x''])))
   \<and> downloads (snd (generate_image_v4 nan_runtime env_mixed_output_v4
                        (Some [''prompt'' \<mapsto> JStr ''x'']))) =
       [''https://h/1'', ''https://h/4'']"
proof -
  let ?args = "Some [''prompt'' \<mapsto> JStr ''x'']"
  let ?three = "map (\<lambda>u. UrlReturns (JStr u)) three_urls"
  let ?run3 = "\<lambda>(m::string) (input::payload). Resolved (Array ?three)"
  let ?runm = "\<lambda>(m::string) (input::payload). Resolved (Array mixed_output)"
  have r3: "replicate env_three_images_v4 = Some ?run3"
    by (simp add: env_three_images_v4_def)
  have rm: "replicate env_mixed_output_v4 = Some ?runm"
    by (simp add: env_mixed_output_v4_def)
  have n: "normalize_v4 nan_runtime (params_of ?args) = Inr (default_input_v4 ''x'')"
    by (simp add: v4_defs params_of_def default_input_v4_def)
  have o3: "?run3 ''bytedance/seedream-4'' (default_input_v4 ''x'') = Resolved (Array ?three)"
    by simp
  have om: "?runm ''bytedance/seedream-4'' (default_input_v4 ''x'') = Resolved (Array mixed_output)"
    by simp
  have ne3: "?three \<noteq> []" by (simp add: three_urls_def)
  have nem: "mixed_output \<noteq> []" by (simp add: mixed_output_def)
  have d3: "downloadImage env_three_images_v4 =
             (\<lambda>u f. if u = ''https://h/2'' then Inl (ErrorObj ''Failed to download image: 404'')
                     else Inr ''/srv/images/saved.jpg'')"
    by (simp add: env_three_images_v4_def)
  have dm: "downloadImage env_mixed_output_v4 =
             (\<lambda>u f. if u = ''https://h/1'' then Inl (ErrorObj ''Failed to download image: 500'')
                     else Inr ''/srv/images/saved.jpg'')"
    by (simp add: env_mixed_output_v4_def)
  have t3: "first_throw ?three = None" and tm: "first_throw mixed_output = None"
    by (simp_all add: three_urls_def mixed_output_def)
  have f3: "references 0 ?three = [(0, ''https://h/1''), (1, ''https://h/2''), (2, ''https://h/3'')]"
    by (simp add: three_urls_def startsWith_def)
  have fm: "references 0 mixed_output = [(0, ''https://h/1''), (3, ''https://h/4'')]"
    by (simp add: mixed_output_def startsWith_def)
  have a: "fst (generate_image_v4 nan_runtime env_three_images_v4 ?args) =
       Generated_v4
         \<lparr>input_v4 = default_input_v4 ''x'',
          generated = 3,
          imageDetails =
            [Saved 1 ''/srv/images/saved.jpg'' ''https://h/1'',
             DownloadFailed 2 ''https://h/2'',
             Saved 3 ''/srv/images/saved.jpg'' ''https://h/3''],
          successfulDownloads = 2\<rparr>
      \<and> \<not> isError (fst (generate_image_v4 nan_runtime env_three_images_v4 ?args))
      \<and> downloads (snd (generate_image_v4 nan_runtime env_three_images_v4 ?args)) =
           [''https://h/1'', ''https://h/2'', ''https://h/3'']"
    using downloads_independent [OF r3 n o3 ne3, of "[]"]
    unfolding t3 f3 d3 by (simp add: three_urls_def)
  have b: "fst (generate_image_v4 nan_runtime env_mixed_output_v4 ?args) =
       Generated_v4
         \<lparr>input_v4 = default_input_v4 ''x'',
          generated = 4,
          imageDetails =
            [DownloadFailed 1 ''https://h/1'',
             Saved 4 ''/srv/images/saved.jpg'' ''https://h/4''],
          successfulDownloads = 1\<rparr>
      \<and> \<not> isError (fst (generate_image_v4 nan_runtime env_mixed_output_v4 ?args))
      \<and> downloads (snd (generate_image_v4 nan_runtime env_mixed_output_v4 ?args)) =
           [''https://h/1'', ''https://h/4'']"
    using downloads_independent [OF rm n om nem, of "[]"]
    unfolding tm fm dm by (simp add: mixed_output_def)
  from n a b show ?thesis by simp
qed

text \<open>
  Claim C9. The payload sent upstream is a function of the arguments alone: two calls
  with the same arguments send the same payloads whatever the clocks, random numbers,
  upstream answers and downloads of their environments, and for valid arguments that
  payload is the normalized one. The normalizer adds no seed: a 3.0 payload has a seed
  only if the arguments have one, and a 4.0 payload never has one.
\<close>

theorem payload_deterministic:
  assumes "replicate env3 \<noteq> None" and "replicate env3' \<noteq> None"
      and "replicate env4 \<noteq> None" and "replicate env4' \<noteq> None"
  shows "upstream_payloads (snd (generate_image_v3 env3 arguments)) =
           upstream_payloads (snd (generate_image_v3 env3' arguments))
       \<and> upstream_payloads (snd (generate_image_v4 tn env4 arguments)) =
           upstream_payloads (snd (generate_image_v4 tn env4' arguments))
       \<and> (normalize_v3 (params_of arguments) = Inr input3 \<longrightarrow>
            upstream_payloads (snd (generate_image_v3 env3 arguments)) = [input3]
            \<and> (get_prop (params_of arguments) ''seed'' = JUndefined
                 \<longrightarrow> ''seed'' \<notin> set (map fst input3)))
       \<and> (normalize_v4 tn (params_of arguments) = Inr input4 \<longrightarrow>
            upstream_payloads (snd (generate_image_v4 tn env4 arguments)) = [input4]
            \<and> ''seed'' \<notin> set (map fst input4))"
proof -
  from assms obtain r3 r3' r4 r4' where
    r: "replicate env3 = Some r3" "replicate env3' = Some r3'"
       "replicate env4 = Some r4" "replicate env4' = Some r4'"
    by auto
  have a: "upstream_payloads (snd (generate_image_v3 env3 arguments)) =
           upstream_payloads (snd (generate_image_v3 env3' arguments))"
    by (simp add: payloads_v3 r)
  have b: "upstream_payloads (snd (generate_image_v4 tn env4 arguments)) =
           upstream_payloads (snd (generate_image_v4 tn env4' arguments))"
    by (simp add: payloads_v4 r)
  have c: "normalize_v3 (params_of arguments) = Inr input3 \<longrightarrow>
            upstream_payloads (snd (generate_image_v3 env3 arguments)) = [input3]
            \<and> (get_prop (params_of arguments) ''seed'' = JUndefined
                 \<longrightarrow> ''seed'' \<notin> set (map fst input3))"
  proof
    assume n: "normalize_v3 (params_of arguments) = Inr input3"
    then have i: "input3 = build_input_v3 (params_of arguments)"
      by (simp add: normalize_v3_def split: option.splits)
    have "get_prop (params_of arguments) ''seed'' = JUndefined
            \<longrightarrow> ''seed'' \<notin> set (map fst input3)"
      unfolding i by (auto simp add: build_input_v3_def)
    with n show "upstream_payloads (snd (generate_image_v3 env3 arguments)) = [input3]
            \<and> (get_prop (params_of arguments) ''seed'' = JUndefined
                 \<longrightarrow> ''seed'' \<notin> set (map fst input3))"
      by (simp add: payloads_v3 r)
  qed
  have d: "normalize_v4 tn (params_of arguments) = Inr input4 \<longrightarrow>
            upstream_payloads (snd (generate_image_v4 tn env4 arguments)) = [input4]
            \<and> ''seed'' \<notin> set (map fst input4)"
  proof
    assume n: "normalize_v4 tn (params_of arguments) = Inr input4"
    then have i: "input4 = build_input_v4 (params_of arguments)"
      by (simp add: normalize_v4_def split: option.splits)
    have "''seed'' \<notin> set (map fst input4)"
      unfolding i by (auto simp add: build_input_v4_def)
    with n show "upstream_payloads (snd (generate_image_v4 tn env4 arguments)) = [input4]
            \<and> ''seed'' \<notin> set (map fst input4)"
      by (simp add: payloads_v4 r)
  qed
  from a b c d show ?thesis by blast
qed

text \<open>
  The theorem on the request \<open>{prompt: "a red fox"}\<close>, sent once to a model that
  answers and once to one that times out (3.0), and once to a model that returns three
  images and once to one that returns none (4.0).
\<close>

theorem payload_deterministic_witness:
  "replicate env_one_image_v3 \<noteq> None \<and> replicate env_timeout_v3 \<noteq> None
   \<and> replicate env_three_images_v4 \<noteq> None \<and> replicate env_empty_output_v4 \<noteq> None
   \<and> upstream_payloads (snd (generate_image_v3 env_one_image_v3 (Some [''prompt'' \<mapsto> JStr ''a red fox'']))) =
       [[(''prompt'', JStr ''a red fox''), (''aspect_ratio'', JStr ''16:9''),
         (''guidance_scale'', JNum 2.5), (''size'', JStr ''regular'')]]
   \<and> upstream_payloads (snd (generate_image_v3 env_timeout_v3 (Some [''prompt'' \<mapsto> JStr ''a red fox'']))) =
       [[(''prompt'', JStr ''a red fox''), (''aspect_ratio'', JStr ''16:9''),
         (''guidance_scale'', JNum 2.5), (''size'', JStr ''regular'')]]
   \<and> upstream_payloads (snd (generate_image_v4 nan_runtime env_three_images_v4
                                (Some [''prompt'' \<mapsto> JStr ''a red fox'']))) =
       [default_input_v4 ''a red fox'']
   \<and> upstream_payloads (snd (generate_image_v4 nan_runtime env_empty_output_v4
                                (Some [''prompt'' \<mapsto> JStr ''a red fox'']))) =
       [default_input_v4 ''a red fox'']"
proof -
  let ?args = "Some [''prompt'' \<mapsto> JStr ''a red fox'']"
  let ?pl3 = "[(''prompt'', JStr ''a red fox''), (''aspect_ratio'', JStr ''16:9''),
               (''guidance_scale'', JNum 2.5), (''size'', JStr ''regular'')]"
  have r: "replicate env_one_image_v3 \<noteq> None" "replicate env_timeout_v3 \<noteq> None"
          "replicate env_three_images_v4 \<noteq> None" "replicate env_empty_output_v4 \<noteq> None"
    by (simp_all add: env_defs)
  have n3: "normalize_v3 (params_of ?args) = Inr ?pl3"
    by (simp add: v3_defs params_of_def)
  have n4: "normalize_v4 nan_runtime (params_of ?args) = Inr (default_input_v4 ''a red fox'')"
    by (simp add: v4_defs params_of_def default_input_v4_def)
  from payload_deterministic [OF r, of ?args nan_runtime ?pl3 "default_input_v4 ''a red fox''"] r n3 n4
  show ?thesis by auto
qed

text \<open>
  Claim C10. Without a client (no API token) every call returns the fixed
  configuration error, flagged as an error, whatever its arguments, and produces no
  event: nothing is validated and nothing is sent upstream.
\<close>

theorem no_token_configuration_error:
  assumes "replicate env3 = None" and "replicate env4 = None"
  shows "call_tool_v3 env3 ''generate_image'' arguments3 = Inr (ConfigurationError, [])
       \<and> call_tool_v4 tn env4 ''generate_image'' arguments4 = Inr (ConfigurationError, [])
       \<and> isError ConfigurationError"
  using assms
  by (simp add: call_tool_v3_def call_tool_v4_def generate_image_v3_def generate_image_v4_def)

text \<open>
  The theorem on calls that would not validate: no arguments at all on 3.0, an invalid
  size and no prompt on 4.0.
\<close>

theorem no_token_configuration_error_witness:
  "replicate env_without_token_v3 = None
   \<and> replicate env_without_token_v4 = None
   \<and> call_tool_v3 env_without_token_v3 ''generate_image'' None = Inr (ConfigurationError, [])
   \<and> call_tool_v4 nan_runtime env_without_token_v4 ''generate_image''
         (Some [''size'' \<mapsto> JStr ''huge'']) = Inr (ConfigurationError, [])
   \<and> normalize_v4 nan_runtime (params_of (Some [''size'' \<mapsto> JStr ''huge''])) = Inl MissingPrompt"
proof -
  have r3: "replicate env_without_token_v3 = None" and r4: "replicate env_without_token_v4 = None"
    by (simp_all add: env_defs)
  have n: "normalize_v4 nan_runtime (params_of (Some [''size'' \<mapsto> JStr ''huge''])) = Inl MissingPrompt"
    by (simp add: v4_defs params_of_def)
  from no_token_configuration_error [OF r3 r4, of None nan_runtime "Some [''size'' \<mapsto> JStr ''huge'']"]
    r3 r4 n
  show ?thesis by simp
qed

end
